theory Spec2Isabelle
  imports Complex_Main
begin

section \<open>Outcomes of a Python call\<close>

text \<open>
  The functions of \<^verbatim>\<open>PLBenchmarks/utils.py\<close> either return a value or raise. Every
  exception that the modelled code can raise is a constructor of \<open>error\<close>;
  \<open>NonFinite\<close> stands for a numpy result outside the real numbers (\<^verbatim>\<open>inf\<close>, \<^verbatim>\<open>-inf\<close> or
  \<^verbatim>\<open>nan\<close> from the logarithm of a non-positive number or from a quotient of numpy
  floats with divisor zero), which the real-valued model cannot represent.
\<close>

datatype error =
    DimensionalityError
  | NotImplementedError
  | ZeroDivisionError
  | KeyError
  | IndexError
  | TypeError
  | AttributeError
  | NonFinite

datatype 'a result = Return 'a | Raise error

fun bind :: "'a result \<Rightarrow> ('a \<Rightarrow> 'b result) \<Rightarrow> 'b result" where
  "bind (Return x) f = f x"
| "bind (Raise e) f = Raise e"

text \<open>
  \<open>returning r\<close> is the statement \<^verbatim>\<open>return r\<close> of a function that may also fall off
  its end: Python then returns \<^verbatim>\<open>None\<close>, written \<open>Return None\<close>.
\<close>

fun returning :: "'a result \<Rightarrow> 'a option result" where
  "returning (Return x) = Return (Some x)"
| "returning (Raise e) = Raise e"

section \<open>Quantities with units\<close>

text \<open>
  The unit library (pint) is outside the repository; the part of it that
  \<^verbatim>\<open>convertValue\<close> and \<^verbatim>\<open>convertError\<close> use is modelled here. Magnitudes are real
  numbers: the rounding of binary floating point is not modelled. A unit is its size
  \<open>factor\<close> in root units together with the exponents of the three independent
  dimensions that occur: molar energy (root unit joule per mole), concentration (root
  unit molar) and temperature (root unit kelvin).
\<close>

record pint_unit =
  factor :: real
  energy :: int
  conc :: int
  temp :: int

record quantity =
  magnitude :: real
  units :: pint_unit

definition dimensionless :: pint_unit where
  "dimensionless = \<lparr>factor = 1, energy = 0, conc = 0, temp = 0\<rparr>"

definition molar :: pint_unit where
  "molar = \<lparr>factor = 1, energy = 0, conc = 1, temp = 0\<rparr>"

definition nanomolar :: pint_unit where
  "nanomolar = \<lparr>factor = 1 / 10 ^ 9, energy = 0, conc = 1, temp = 0\<rparr>"

definition kelvin :: pint_unit where
  "kelvin = \<lparr>factor = 1, energy = 0, conc = 0, temp = 1\<rparr>"

definition joule_per_mole_per_kelvin :: pint_unit where
  "joule_per_mole_per_kelvin = \<lparr>factor = 1, energy = 1, conc = 0, temp = - 1\<rparr>"

definition kilocalories_per_mole :: pint_unit where
  "kilocalories_per_mole = \<lparr>factor = 4184, energy = 1, conc = 0, temp = 0\<rparr>"

definition same_dimension :: "pint_unit \<Rightarrow> pint_unit \<Rightarrow> bool" where
  "same_dimension u v \<longleftrightarrow> energy u = energy v \<and> conc u = conc v \<and> temp u = temp v"

definition unit_mul :: "pint_unit \<Rightarrow> pint_unit \<Rightarrow> pint_unit" where
  "unit_mul u v = \<lparr>factor = factor u * factor v, energy = energy u + energy v,
                   conc = conc u + conc v, temp = temp u + temp v\<rparr>"

definition unit_div :: "pint_unit \<Rightarrow> pint_unit \<Rightarrow> pint_unit" where
  "unit_div u v = \<lparr>factor = factor u / factor v, energy = energy u - energy v,
                   conc = conc u - conc v, temp = temp u - temp v\<rparr>"

text \<open>\<^verbatim>\<open>x * u\<close> for a number \<open>x\<close> and a unit \<open>u\<close>; the unit \<^verbatim>\<open>None\<close> cannot be multiplied.\<close>

fun times_unit :: "real \<Rightarrow> pint_unit option \<Rightarrow> quantity result" where
  "times_unit x (Some u) = Return \<lparr>magnitude = x, units = u\<rparr>"
| "times_unit x None = Raise TypeError"

text \<open>\<^verbatim>\<open>q * x\<close> and \<^verbatim>\<open>q / x\<close> for a quantity and a number, \<^verbatim>\<open>-q\<close>.\<close>

definition q_scale :: "quantity \<Rightarrow> real \<Rightarrow> quantity" where
  "q_scale q x = \<lparr>magnitude = magnitude q * x, units = units q\<rparr>"

definition q_over :: "quantity \<Rightarrow> real \<Rightarrow> quantity result" where
  "q_over q x =
     (if x = 0 then Raise ZeroDivisionError
      else Return \<lparr>magnitude = magnitude q / x, units = units q\<rparr>)"

definition q_neg :: "quantity \<Rightarrow> quantity" where
  "q_neg q = \<lparr>magnitude = - magnitude q, units = units q\<rparr>"

text \<open>\<^verbatim>\<open>q * u\<close> and \<^verbatim>\<open>q / u\<close> for a quantity and a unit.\<close>

definition q_mul_unit :: "quantity \<Rightarrow> pint_unit \<Rightarrow> quantity" where
  "q_mul_unit q u = \<lparr>magnitude = magnitude q, units = unit_mul (units q) u\<rparr>"

definition q_div_unit :: "quantity \<Rightarrow> pint_unit \<Rightarrow> quantity" where
  "q_div_unit q u = \<lparr>magnitude = magnitude q, units = unit_div (units q) u\<rparr>"

text \<open>
  Products and quotients of quantities keep the units as they are written, without
  converting; a quotient of Python floats raises on a zero divisor.
\<close>

definition q_mul :: "quantity \<Rightarrow> quantity \<Rightarrow> quantity" where
  "q_mul p q = \<lparr>magnitude = magnitude p * magnitude q, units = unit_mul (units p) (units q)\<rparr>"

definition q_div :: "quantity \<Rightarrow> quantity \<Rightarrow> quantity result" where
  "q_div p q =
     (if magnitude q = 0 then Raise ZeroDivisionError
      else Return \<lparr>magnitude = magnitude p / magnitude q,
                   units = unit_div (units p) (units q)\<rparr>)"

text \<open>\<^verbatim>\<open>x / q\<close> for a number and a quantity.\<close>

definition q_rdiv :: "real \<Rightarrow> quantity \<Rightarrow> quantity result" where
  "q_rdiv x q =
     (if magnitude q = 0 then Raise ZeroDivisionError
      else Return \<lparr>magnitude = x / magnitude q, units = unit_div dimensionless (units q)\<rparr>)"

text \<open>
  The same quotient where the magnitude of \<open>q\<close> is a numpy float (a product with
  \<^verbatim>\<open>np.log(10)\<close>): a zero divisor does not raise but gives \<^verbatim>\<open>inf\<close>, a value outside
  the real numbers.
\<close>

definition q_rdiv_np :: "real \<Rightarrow> quantity \<Rightarrow> quantity result" where
  "q_rdiv_np x q =
     (if magnitude q = 0 then Raise NonFinite
      else Return \<lparr>magnitude = x / magnitude q, units = unit_div dimensionless (units q)\<rparr>)"

text \<open>\<^verbatim>\<open>q.to(u)\<close>: the same quantity expressed in \<open>u\<close>, or a dimensionality error.\<close>

fun to :: "quantity \<Rightarrow> pint_unit option \<Rightarrow> quantity result" where
  "to q (Some u) =
     (if same_dimension (units q) u
      then Return \<lparr>magnitude = magnitude q * factor (units q) / factor u, units = u\<rparr>
      else Raise DimensionalityError)"
| "to q None = Raise TypeError"

text \<open>\<^verbatim>\<open>p < q\<close>: both sides are compared in root units.\<close>

definition q_less :: "quantity \<Rightarrow> quantity \<Rightarrow> bool result" where
  "q_less p q =
     (if same_dimension (units p) (units q)
      then Return (magnitude p * factor (units p) < magnitude q * factor (units q))
      else Raise DimensionalityError)"

text \<open>
  \<^verbatim>\<open>np.exp(q)\<close> and \<^verbatim>\<open>np.log(q)\<close> convert a dimensionless quantity to the unit
  \<^verbatim>\<open>''\<close> first and give a dimensionless quantity (a bare number in old versions of the
  library, which multiplies and divides in the same way); any other dimension is an
  error.
\<close>

definition np_exp :: "quantity \<Rightarrow> quantity result" where
  "np_exp q =
     bind (to q (Some dimensionless))
       (\<lambda>d. Return \<lparr>magnitude = exp (magnitude d), units = dimensionless\<rparr>)"

definition np_log :: "quantity \<Rightarrow> quantity result" where
  "np_log q =
     bind (to q (Some dimensionless))
       (\<lambda>d. if magnitude d \<le> 0 then Raise NonFinite
            else Return \<lparr>magnitude = ln (magnitude d), units = dimensionless\<rparr>)"

text \<open>\<^verbatim>\<open>x ** q\<close> for a positive number \<open>x\<close>: the exponent has to be dimensionless, the result is a number.\<close>

definition rpow :: "real \<Rightarrow> quantity \<Rightarrow> real result" where
  "rpow x q =
     bind (to q (Some dimensionless)) (\<lambda>d. Return (x powr magnitude d))"

text \<open>
  Rounding to \<open>n\<close> decimals: scale, round to the nearest integer with ties to the even
  one, scale back.
\<close>

definition rint :: "real \<Rightarrow> int" where
  "rint y =
     (let f = \<lfloor>y\<rfloor> in
      if y - of_int f < 1 / 2 then f
      else if 1 / 2 < y - of_int f then f + 1
      else if even f then f else f + 1)"

definition py_round :: "real \<Rightarrow> nat \<Rightarrow> real" where
  "py_round x n = of_int (rint (x * 10 ^ n)) / 10 ^ n"

text \<open>\<^verbatim>\<open>q.round(n)\<close>: the magnitude is rounded, the unit is kept.\<close>

definition q_round :: "quantity \<Rightarrow> nat \<Rightarrow> quantity" where
  "q_round q n = \<lparr>magnitude = py_round (magnitude q) n, units = units q\<rparr>"

section \<open>Conversion of observables\<close>

text \<open>
  \<^verbatim>\<open>scipy.constants.gas_constant\<close> (CODATA 2018), in joule per mole and kelvin, and
  the module constant \<^verbatim>\<open>BOLTZMANN = constants.gas_constant * ureg("J / mole / K")\<close>.
\<close>

definition gas_constant :: real where
  "gas_constant = 8314462618 / 10 ^ 9"

definition BOLTZMANN :: quantity where
  "BOLTZMANN = \<lparr>magnitude = gas_constant, units = joule_per_mole_per_kelvin\<rparr>"

text \<open>The subterm \<^verbatim>\<open>BOLTZMANN * temperature * ureg.kelvin\<close>, which every formula repeats.\<close>

definition kBT :: "real \<Rightarrow> quantity" where
  "kBT temperature = q_mul_unit (q_scale BOLTZMANN temperature) kelvin"

text \<open>The quantity \<^verbatim>\<open>1e-15 * ureg("molar")\<close>.\<close>

definition threshold :: quantity where
  "threshold = \<lparr>magnitude = 1 / 10 ^ 15, units = molar\<rparr>"

text \<open>The first statement of both functions: the default unit of the target kind.\<close>

definition default_unit :: "string \<Rightarrow> pint_unit option \<Rightarrow> pint_unit option" where
  "default_unit finalObs outUnit =
     (if outUnit = None then
        if finalObs = ''dg'' then Some kilocalories_per_mole
        else if finalObs = ''ki'' then Some nanomolar
        else if finalObs = ''ic50'' then Some nanomolar
        else if finalObs = ''pic50'' then Some dimensionless
        else None
      else outUnit)"

text \<open>
  The value and its error are quantities, the temperature is a number of kelvin, and
  \<open>outUnit\<close> is a unit or \<^verbatim>\<open>None\<close>. (The defaults \<^verbatim>\<open>ureg("...")\<close> are quantities of
  magnitude one, which \<^verbatim>\<open>to\<close> and the product with a number treat as their unit.)
  The branches follow the source in its order.
\<close>

definition convertValue ::
  "quantity \<Rightarrow> string \<Rightarrow> string \<Rightarrow> real \<Rightarrow> pint_unit option \<Rightarrow> quantity option result" where
  "convertValue val originalObs finalObs temperature outUnit0 =
     (let outUnit = default_unit finalObs outUnit0 in
      if originalObs = ''dg'' then
        if finalObs = ''dg'' then returning (to val outUnit)
        else if finalObs = ''ki'' then
          returning
            (bind (q_div (q_neg val) (kBT temperature)) (\<lambda>x.
             bind (np_exp x) (\<lambda>e.
             to (q_mul_unit e molar) outUnit)))
        else if finalObs = ''ic50'' then
          returning
            (bind (q_div (q_neg val) (kBT temperature)) (\<lambda>x.
             bind (np_exp x) (\<lambda>e.
             to (q_mul_unit e molar) outUnit)))
        else if finalObs = ''pic50'' then
          returning
            (bind (q_div val (kBT temperature)) (\<lambda>x.
             bind (q_over x (ln 10)) (\<lambda>result.
             to result outUnit)))
        else Raise NotImplementedError
      else if originalObs = ''ki'' then
        if finalObs = ''dg'' then
          bind (q_less val threshold) (\<lambda>small.
            if small then returning (times_unit 0 outUnit)
            else
              returning
                (bind (np_log (q_div_unit val molar)) (\<lambda>l.
                 bind (to (q_mul (kBT temperature) l) outUnit) (\<lambda>r.
                 Return (q_round r 2)))))
        else if finalObs = ''ki'' then returning (to val outUnit)
        else if finalObs = ''ic50'' then returning (to val outUnit)
        else if finalObs = ''pic50'' then
          bind (q_less val threshold) (\<lambda>small.
            if small then returning (times_unit (- (10 ^ 15)) outUnit)
            else
              returning
                (bind (np_log (q_div_unit val molar)) (\<lambda>l.
                 q_over (q_neg l) (ln 10))))
        else Raise NotImplementedError
      else if originalObs = ''ic50'' then
        if finalObs = ''dg'' then
          bind (q_less val threshold) (\<lambda>small.
            if small then returning (times_unit 0 outUnit)
            else
              returning
                (bind (to val (Some molar)) (\<lambda>m.
                 bind (np_log (q_div_unit m molar)) (\<lambda>l.
                 bind (to (q_mul (kBT temperature) l) outUnit) (\<lambda>r.
                 Return (q_round r 2))))))
        else if finalObs = ''ki'' then returning (to val outUnit)
        else if finalObs = ''ic50'' then returning (to val outUnit)
        else if finalObs = ''pic50'' then
          bind (to val (Some molar)) (\<lambda>m.
          bind (q_less m threshold) (\<lambda>small.
            if small then returning (times_unit (- (10 ^ 15)) outUnit)
            else
              returning
                (bind (np_log (q_div_unit val molar)) (\<lambda>l.
                 q_over (q_neg l) (ln 10)))))
        else Raise NotImplementedError
      else if originalObs = ''pic50'' then
        if finalObs = ''dg'' then
          returning
            (bind (to (q_scale
                        (q_mul (q_mul_unit (q_scale (q_neg BOLTZMANN) temperature) kelvin) val)
                        (ln 10)) outUnit) (\<lambda>r.
             Return (q_round r 2)))
        else if finalObs = ''ki'' then
          returning
            (bind (rpow 10 (q_neg val)) (\<lambda>p.
             to \<lparr>magnitude = p, units = molar\<rparr> outUnit))
        else if finalObs = ''ic50'' then
          returning
            (bind (rpow 10 (q_neg val)) (\<lambda>p.
             to \<lparr>magnitude = p, units = molar\<rparr> outUnit))
        else if finalObs = ''pic50'' then returning (to val outUnit)
        else Raise NotImplementedError
      else Return None)"

definition convertError ::
  "quantity \<Rightarrow> quantity \<Rightarrow> string \<Rightarrow> string \<Rightarrow> real \<Rightarrow> pint_unit option
     \<Rightarrow> quantity option result" where
  "convertError eVal val originalObs finalObs temperature outUnit0 =
     (let outUnit = default_unit finalObs outUnit0 in
      if originalObs = ''dg'' then
        if finalObs = ''dg'' then returning (to eVal outUnit)
        else if finalObs = ''ki'' then
          returning
            (bind (q_rdiv 1 (kBT temperature)) (\<lambda>a.
             bind (q_div (q_neg val) (kBT temperature)) (\<lambda>x.
             bind (np_exp x) (\<lambda>e.
             to (q_mul_unit (q_mul (q_mul a e) eVal) molar) outUnit))))
        else if finalObs = ''ic50'' then
          returning
            (bind (q_rdiv 1 (kBT temperature)) (\<lambda>a.
             bind (q_div (q_neg val) (kBT temperature)) (\<lambda>x.
             bind (np_exp x) (\<lambda>e.
             to (q_mul_unit (q_mul (q_mul a e) eVal) molar) outUnit))))
        else if finalObs = ''pic50'' then
          returning
            (bind (q_rdiv_np 1 (q_scale (kBT temperature) (ln 10))) (\<lambda>a.
             to (q_mul a eVal) outUnit))
        else Raise NotImplementedError
      else if originalObs = ''ki'' then
        if finalObs = ''dg'' then
          bind (q_less val threshold) (\<lambda>small.
            if small then returning (times_unit 0 outUnit)
            else
              returning
                (bind (q_div (kBT temperature) val) (\<lambda>a.
                 bind (to (q_mul a eVal) outUnit) (\<lambda>r.
                 Return (q_round r 2)))))
        else if finalObs = ''ki'' then returning (to eVal outUnit)
        else if finalObs = ''ic50'' then returning (to eVal outUnit)
        else if finalObs = ''pic50'' then
          bind (q_less (q_scale val (ln 10)) threshold) (\<lambda>small.
            if small then returning (times_unit (10 ^ 15) outUnit)
            else
              returning
                (bind (q_rdiv_np 1 (q_scale val (ln 10))) (\<lambda>a.
                 bind (to (q_mul a eVal) outUnit) (\<lambda>r.
                 Return (q_round r 2)))))
        else Raise NotImplementedError
      else if originalObs = ''ic50'' then
        if finalObs = ''dg'' then
          bind (q_less val threshold) (\<lambda>small.
            if small then returning (times_unit 0 outUnit)
            else
              returning
                (bind (q_div (kBT temperature) val) (\<lambda>a.
                 bind (to (q_mul a eVal) outUnit) (\<lambda>r.
                 Return (q_round r 2)))))
        else if finalObs = ''ki'' then returning (to eVal outUnit)
        else if finalObs = ''ic50'' then returning (to eVal outUnit)
        else if finalObs = ''pic50'' then
          bind (q_less (q_scale val (ln 10)) threshold) (\<lambda>small.
            if small then returning (times_unit (10 ^ 15) outUnit)
            else
              returning
                (bind (q_rdiv_np 1 (q_scale val (ln 10))) (\<lambda>a.
                 bind (to (q_mul a eVal) outUnit) (\<lambda>r.
                 Return (q_round r 2)))))
        else Raise NotImplementedError
      else if originalObs = ''pic50'' then
        if finalObs = ''dg'' then
          returning
            (bind (to (q_mul (q_scale (kBT temperature) (ln 10)) eVal) outUnit) (\<lambda>r.
             Return (q_round r 2)))
        else if finalObs = ''ki'' then
          returning
            (bind (rpow 10 (q_neg val)) (\<lambda>p.
             bind (to (q_mul_unit (q_scale eVal (ln 10 * p)) molar) outUnit) (\<lambda>r.
             Return (q_round r 2))))
        else if finalObs = ''ic50'' then
          returning
            (bind (rpow 10 (q_neg val)) (\<lambda>p.
             bind (to (q_mul_unit (q_scale eVal (ln 10 * p)) molar) outUnit) (\<lambda>r.
             Return (q_round r 2))))
        else if finalObs = ''pic50'' then
          returning (bind (to eVal outUnit) (\<lambda>r. Return (q_round r 2)))
        else Raise NotImplementedError
      else Return None)"

section \<open>External identifier resolution\<close>

text \<open>
  The two lookups ask a web service. The answer of the service is an argument of the
  model: either the request failed with a \<^verbatim>\<open>URLError\<close> (carrying its text), or it
  delivered a page. A warning is an element of the list of warnings that the model
  returns next to the value.
\<close>

datatype 'a fetched = URLError string | Response 'a

subsection \<open>Strings\<close>

text \<open>\<^verbatim>\<open>str.isspace\<close> on the characters below 256.\<close>

definition isspace :: "char \<Rightarrow> bool" where
  "isspace c \<longleftrightarrow>
     (let n = (of_char c :: nat) in
      (9 \<le> n \<and> n \<le> 13) \<or> (28 \<le> n \<and> n \<le> 32) \<or> n = 133 \<or> n = 160)"

text \<open>\<^verbatim>\<open>s.split()\<close>: the maximal runs of characters that are not white space.\<close>

fun split_from :: "string \<Rightarrow> string \<Rightarrow> string list" where
  "split_from cur [] = (if cur = [] then [] else [cur])"
| "split_from cur (c # cs) =
     (if isspace c then (if cur = [] then split_from [] cs else cur # split_from [] cs)
      else split_from (cur @ [c]) cs)"

definition split :: "string \<Rightarrow> string list" where
  "split s = split_from [] s"

text \<open>\<^verbatim>\<open>sep.join(xs)\<close>.\<close>

fun join :: "string \<Rightarrow> string list \<Rightarrow> string" where
  "join sep [] = []"
| "join sep [x] = x"
| "join sep (x # y # ys) = x @ sep @ join sep (y # ys)"

definition newline :: string where
  "newline = [CHR 0x0A]"

subsection \<open>Structure identifiers\<close>

definition findPdbUrl :: "string option \<Rightarrow> string fetched \<Rightarrow> string list \<times> string" where
  "findPdbUrl pdb0 answer =
     (case pdb0 of
        None \<Rightarrow> ([], [])
      | Some pdb \<Rightarrow>
          (case answer of
             Response text \<Rightarrow>
               (let page = split text;
                    pdbs = split pdb;
                    res = map (\<lambda>p. ''REP1http://www.rcsb.org/structure/'' @ p @ ''REP2'' @ p @ ''REP3'') page;
                    warnings = map (\<lambda>p. ''PDB '' @ p @ '' not found'')
                                 (filter (\<lambda>p. p \<notin> set page) pdbs)
                in (warnings, join newline res))
           | URLError e \<Rightarrow>
               ([''Could not find PDB '' @ pdb @ newline @ e], join newline (split pdb))))"

subsection \<open>Bibliographic identifiers\<close>

text \<open>The values that \<^verbatim>\<open>json.loads\<close> delivers.\<close>

datatype json =
    JNull
  | JBool bool
  | JInt int
  | JFloat real
  | JStr string
  | JArr "json list"
  | JObj "(string \<times> json) list"

text \<open>\<^verbatim>\<open>x[key]\<close> for a string key, \<^verbatim>\<open>x[0]\<close>, \<^verbatim>\<open>len(x)\<close> and \<^verbatim>\<open>key in x.keys()\<close>.\<close>

fun getitem :: "json \<Rightarrow> string \<Rightarrow> json result" where
  "getitem (JObj kvs) key = (case map_of kvs key of None \<Rightarrow> Raise KeyError | Some v \<Rightarrow> Return v)"
| "getitem _ key = Raise TypeError"

fun getitem0 :: "json \<Rightarrow> json result" where
  "getitem0 (JArr []) = Raise IndexError"
| "getitem0 (JArr (x # xs)) = Return x"
| "getitem0 (JStr []) = Raise IndexError"
| "getitem0 (JStr (c # cs)) = Return (JStr [c])"
| "getitem0 (JObj kvs) = Raise KeyError"
| "getitem0 _ = Raise TypeError"

fun len :: "json \<Rightarrow> nat result" where
  "len (JArr xs) = Return (length xs)"
| "len (JStr s) = Return (length s)"
| "len (JObj kvs) = Return (length (remdups (map fst kvs)))"
| "len _ = Raise TypeError"

fun has_key :: "json \<Rightarrow> string \<Rightarrow> bool result" where
  "has_key (JObj kvs) key = Return (map_of kvs key \<noteq> None)"
| "has_key _ key = Raise AttributeError"

text \<open>
  \<^verbatim>\<open>str(x)\<close>, as \<^verbatim>\<open>format\<close> and the f-string apply it. The texts of floats, lists and
  dictionaries are the argument \<open>repr\<close>.
\<close>

fun decimal :: "nat \<Rightarrow> string" where
  "decimal n =
     (if n < 10 then [''0123456789'' ! n]
      else decimal (n div 10) @ [''0123456789'' ! (n mod 10)])"

declare decimal.simps [simp del]

fun str :: "(json \<Rightarrow> string) \<Rightarrow> json \<Rightarrow> string" where
  "str repr (JStr s) = s"
| "str repr (JInt i) = (if i < 0 then CHR ''-'' # decimal (nat (- i)) else decimal (nat i))"
| "str repr (JBool b) = (if b then ''True'' else ''False'')"
| "str repr JNull = ''None''"
| "str repr x = repr x"

definition findDoiUrl ::
  "(json \<Rightarrow> string) \<Rightarrow> string \<Rightarrow> json fetched \<Rightarrow> string list \<times> string result" where
  "findDoiUrl repr doi answer =
     (case answer of
        Response obj0 \<Rightarrow>
          ([],
           bind (getitem obj0 ''status'') (\<lambda>status.
           bind (if status = JStr ''ok'' then getitem obj0 ''message'' else Return obj0) (\<lambda>obj.
           bind (getitem obj ''author'') (\<lambda>aut0.
           bind (len aut0) (\<lambda>n.
           bind (if 0 < n
                 then bind (getitem obj ''author'') (\<lambda>a.
                      bind (getitem0 a) (\<lambda>a0. getitem a0 ''family''))
                 else Return (JStr [])) (\<lambda>aut.
           bind (getitem obj ''short-container-title'') (\<lambda>tit0.
           bind (len tit0) (\<lambda>m.
           bind (if 0 < m then getitem0 tit0 else Return (JStr [])) (\<lambda>tit.
           bind (has_key obj ''published-print'') (\<lambda>printed.
           bind (if printed
                 then bind (getitem obj ''published-print'') (\<lambda>p.
                      bind (getitem p ''date-parts'') (\<lambda>d.
                      bind (getitem0 d) (\<lambda>d0. getitem0 d0)))
                 else Return (JStr ''XXXX'')) (\<lambda>dat.
           let desc_string = str repr aut @ '' et al., '' @ str repr tit @ '' '' @ str repr dat
           in bind (getitem obj ''URL'') (\<lambda>url.
              Return (''REP1'' @ str repr url @ ''REP2'' @ desc_string @ ''REP3'')))))))))))))
      | URLError e \<Rightarrow> ([''Could not find DOI: '' @ doi @ newline @ e], Return doi))"

section \<open>Notions used in the statements\<close>

text \<open>The magnitude of a quantity in root units (joule per mole, molar, or a pure number).\<close>

definition in_root :: "quantity \<Rightarrow> real" where
  "in_root q = magnitude q * factor (units q)"

text \<open>A number with at most two decimals: a whole multiple of a hundredth.\<close>

definition two_decimals :: "real \<Rightarrow> bool" where
  "two_decimals x \<longleftrightarrow> of_int \<lfloor>x * 100\<rfloor> = x * 100"

text \<open>The dimensions of the three kinds of unit that the observables carry.\<close>

definition molar_energy :: "pint_unit \<Rightarrow> bool" where
  "molar_energy u \<longleftrightarrow> energy u = 1 \<and> conc u = 0 \<and> temp u = 0"

definition concentration :: "pint_unit \<Rightarrow> bool" where
  "concentration u \<longleftrightarrow> energy u = 0 \<and> conc u = 1 \<and> temp u = 0"

definition ratio :: "pint_unit \<Rightarrow> bool" where
  "ratio u \<longleftrightarrow> energy u = 0 \<and> conc u = 0 \<and> temp u = 0"

section \<open>Auxiliary facts\<close>

lemma bind_Return_iff: "bind m f = Return y \<longleftrightarrow> (\<exists>x. m = Return x \<and> f x = Return y)"
  by (cases m) simp_all

lemma returning_Return_iff: "returning m = Return y \<longleftrightarrow> (\<exists>x. m = Return x \<and> y = Some x)"
  by (cases m) auto

lemma rint_bounds: "y - 1 / 2 \<le> of_int (rint y) \<and> of_int (rint y) \<le> y + 1 / 2"
proof -
  define f where "f = \<lfloor>y\<rfloor>"
  define d where "d = y - of_int f"
  have a: "0 \<le> d" "d < 1" unfolding d_def f_def by linarith+
  have y: "y = of_int f + d" unfolding d_def by simp
  have r: "rint y = (if d < 1 / 2 then f else if 1 / 2 < d then f + 1
                     else if even f then f else f + 1)"
    unfolding rint_def f_def d_def Let_def by (rule refl)
  have "(rint y = f \<and> d \<le> 1 / 2) \<or> (rint y = f + 1 \<and> 1 / 2 \<le> d)"
  proof (cases "d < 1 / 2")
    case True
    with r have "rint y = f" by (simp only: if_True)
    with True show ?thesis by simp
  next
    case False
    then have h: "1 / 2 \<le> d" by simp
    show ?thesis
    proof (cases "1 / 2 < d")
      case True
      with r False have "rint y = f + 1" by (simp only: if_True if_False)
      with h show ?thesis by simp
    next
      case nt: False
      with h have e: "d = 1 / 2" by simp
      from r False nt have "rint y = (if even f then f else f + 1)"
        by (simp only: if_False)
      then have "rint y = f \<or> rint y = f + 1" by presburger
      with e show ?thesis by auto
    qed
  qed
  then show ?thesis
  proof
    assume c: "rint y = f \<and> d \<le> 1 / 2"
    then have "real_of_int (rint y) = y - d" using y by simp
    with c a show ?thesis by linarith
  next
    assume c: "rint y = f + 1 \<and> 1 / 2 \<le> d"
    then have "real_of_int (rint y) = y - d + 1" using y by simp
    with c a show ?thesis by linarith
  qed
qed

lemma rint_upper: "of_int (rint y) \<le> y + 1 / 2"
  using rint_bounds [of y] by (rule conjunct2)

lemma rint_lower: "y - 1 / 2 \<le> of_int (rint y)"
  using rint_bounds [of y] by (rule conjunct1)

lemma rint_of_int: "rint (of_int k) = k"
  unfolding rint_def Let_def by simp

lemma py_round_upper: "py_round x n \<le> x + 1 / 2"
proof -
  have p: "(0::real) < 10 ^ n" by simp
  have o: "(1::real) \<le> 10 ^ n" by simp
  have "of_int (rint (x * 10 ^ n)) \<le> x * 10 ^ n + 1 / 2"
    by (rule rint_upper)
  then have "py_round x n \<le> (x * 10 ^ n + 1 / 2) / 10 ^ n"
    unfolding py_round_def using p by (simp add: divide_right_mono)
  also have "\<dots> = x + (1 / 2) / 10 ^ n"
    using p by (simp add: add_divide_distrib)
  also have "\<dots> \<le> x + 1 / 2"
    using o by (simp add: field_simps)
  finally show ?thesis .
qed

lemma py_round_lower: "x - 1 / 2 \<le> py_round x n"
proof -
  have p: "(0::real) < 10 ^ n" by simp
  have o: "(1::real) \<le> 10 ^ n" by simp
  have "x * 10 ^ n - 1 / 2 \<le> of_int (rint (x * 10 ^ n))"
    by (rule rint_lower)
  then have "(x * 10 ^ n - 1 / 2) / 10 ^ n \<le> py_round x n"
    unfolding py_round_def using p by (simp add: divide_right_mono)
  moreover have "(x * 10 ^ n - 1 / 2) / 10 ^ n = x - (1 / 2) / 10 ^ n"
    using p by (simp add: diff_divide_distrib)
  moreover have "x - 1 / 2 \<le> x - (1 / 2) / 10 ^ n"
    using o by (simp add: field_simps)
  ultimately show ?thesis by linarith
qed

lemma py_round_of_int: "py_round (of_int k) n = of_int k"
proof -
  have "of_int k * (10::real) ^ n = of_int (k * 10 ^ n)" by simp
  then have "rint (of_int k * 10 ^ n) = k * 10 ^ n"
    using rint_of_int by presburger
  then show ?thesis unfolding py_round_def by simp
qed

lemma two_decimals_py_round: "two_decimals (py_round x 2)"
  unfolding two_decimals_def py_round_def by simp

lemma exp_one_bounds: "5 / 2 \<le> exp (1::real)" "exp (1::real) \<le> 3"
proof -
  show "5 / 2 \<le> exp (1::real)"
    using exp_lower_Taylor_quadratic [of "1::real"] by simp
  show "exp (1::real) \<le> 3" by (rule exp_le)
qed

lemma ln10_lower: "2 < ln (10::real)"
proof -
  have "exp (2::real) = exp 1 * exp 1"
    by (simp flip: exp_add)
  also have "\<dots> \<le> 3 * 3"
    using exp_one_bounds(2) by (intro mult_mono) simp_all
  finally have "exp (2::real) < 10" by simp
  then have "ln (exp (2::real)) < ln 10"
    by (subst ln_less_cancel_iff) simp_all
  then show ?thesis by simp
qed

lemma ln10_upper: "ln (10::real) < 3"
proof -
  have "(5 / 2) * (5 / 2) * (5 / 2) \<le> exp (1::real) * exp 1 * exp 1"
    using exp_one_bounds(1) by (intro mult_mono) simp_all
  also have "\<dots> = exp (3::real)" by (simp flip: exp_add)
  finally have "10 < exp (3::real)" by simp
  then have "ln 10 < ln (exp (3::real))"
    by (subst ln_less_cancel_iff) simp_all
  then show ?thesis by simp
qed

lemmas unit_defs =
  dimensionless_def molar_def nanomolar_def kelvin_def joule_per_mole_per_kelvin_def
  kilocalories_per_mole_def same_dimension_def unit_mul_def unit_div_def

lemmas q_defs =
  q_scale_def q_over_def q_neg_def q_mul_unit_def q_div_unit_def q_mul_def q_div_def
  q_rdiv_def q_rdiv_np_def q_less_def np_exp_def np_log_def rpow_def q_round_def BOLTZMANN_def kBT_def
  threshold_def in_root_def

lemmas dim_defs = molar_energy_def concentration_def ratio_def

lemma gas_constant_pos: "0 < gas_constant"
  unfolding gas_constant_def by simp

lemma default_unit_Some [simp]: "default_unit f (Some u) = Some u"
  unfolding default_unit_def by simp

lemma default_unit_None [simp]:
  "default_unit ''dg'' None = Some kilocalories_per_mole"
  "default_unit ''ki'' None = Some nanomolar"
  "default_unit ''ic50'' None = Some nanomolar"
  "default_unit ''pic50'' None = Some dimensionless"
  unfolding default_unit_def by simp_all

lemma value_conc_dg_small:
  assumes "originalObs = ''ki'' \<or> originalObs = ''ic50''"
    and "concentration (units val)" and "in_root val < 1 / 10 ^ 15"
  shows "convertValue val originalObs ''dg'' T outUnit
         = returning (times_unit 0 (default_unit ''dg'' outUnit))"
  using assms unfolding convertValue_def Let_def
  by (auto simp: q_defs unit_defs dim_defs)

lemma value_conc_dg:
  assumes "originalObs = ''ki'' \<or> originalObs = ''ic50''"
    and "concentration (units val)" and "1 / 10 ^ 15 \<le> in_root val"
    and "default_unit ''dg'' outUnit = Some u" and "molar_energy u"
  shows "convertValue val originalObs ''dg'' T outUnit
         = Return (Some \<lparr>magnitude = py_round (gas_constant * T * ln (in_root val) / factor u) 2,
                          units = u\<rparr>)"
proof -
  have pos: "0 < magnitude val * factor (units val)"
    using assms(3) unfolding in_root_def
    by (rule less_le_trans [rotated]) simp
  have nl: "\<not> magnitude val * factor (units val) < 1 / 10 ^ 15"
    using assms(3) unfolding in_root_def by simp
  show ?thesis
    using assms(1,2,4,5) pos nl unfolding convertValue_def Let_def
    by (auto simp: q_defs unit_defs dim_defs)
qed

lemma value_conc_pic50_small:
  assumes "originalObs = ''ki'' \<or> originalObs = ''ic50''"
    and "concentration (units val)" and "in_root val < 1 / 10 ^ 15"
  shows "convertValue val originalObs ''pic50'' T outUnit
         = returning (times_unit (- (10 ^ 15)) (default_unit ''pic50'' outUnit))"
  using assms unfolding convertValue_def Let_def
  by (auto simp: q_defs unit_defs dim_defs)

lemma ln10_neq0: "ln (10::real) \<noteq> 0"
  using ln10_lower by simp

lemma value_conc_pic50:
  assumes "originalObs = ''ki'' \<or> originalObs = ''ic50''"
    and "concentration (units val)" and "1 / 10 ^ 15 \<le> in_root val"
  shows "convertValue val originalObs ''pic50'' T outUnit
         = Return (Some \<lparr>magnitude = - ln (in_root val) / ln 10, units = dimensionless\<rparr>)"
proof -
  have pos: "0 < magnitude val * factor (units val)"
    using assms(3) unfolding in_root_def
    by (rule less_le_trans [rotated]) simp
  have nl: "\<not> magnitude val * factor (units val) < 1 / 10 ^ 15"
    using assms(3) unfolding in_root_def by simp
  show ?thesis
    using assms(1,2) pos nl ln10_neq0 unfolding convertValue_def Let_def
    by (auto simp: q_defs unit_defs dim_defs)
qed

lemma value_dg_conc:
  assumes "finalObs = ''ki'' \<or> finalObs = ''ic50''"
    and "molar_energy (units val)" and "T \<noteq> 0"
    and "default_unit finalObs outUnit = Some u" and "concentration u"
  shows "convertValue val ''dg'' finalObs T outUnit
         = Return (Some \<lparr>magnitude = exp (- in_root val / (gas_constant * T)) / factor u,
                          units = u\<rparr>)"
  using assms gas_constant_pos unfolding convertValue_def Let_def
  by (auto simp: q_defs unit_defs dim_defs)

lemma value_dg_pic50:
  assumes "molar_energy (units val)" and "T \<noteq> 0"
    and "default_unit ''pic50'' outUnit = Some u" and "ratio u"
  shows "convertValue val ''dg'' ''pic50'' T outUnit
         = Return (Some \<lparr>magnitude = in_root val / (gas_constant * T) / ln 10 / factor u,
                          units = u\<rparr>)"
  using assms gas_constant_pos ln10_neq0 unfolding convertValue_def Let_def
  by (auto simp: q_defs unit_defs dim_defs)

lemma value_pic50_dg:
  assumes "ratio (units val)"
    and "default_unit ''dg'' outUnit = Some u" and "molar_energy u"
  shows "convertValue val ''pic50'' ''dg'' T outUnit
         = Return (Some \<lparr>magnitude = py_round (- (gas_constant * T * in_root val * ln 10) / factor u) 2,
                          units = u\<rparr>)"
  using assms unfolding convertValue_def Let_def
  by (auto simp: q_defs unit_defs dim_defs algebra_simps)

lemma value_pic50_conc:
  assumes "finalObs = ''ki'' \<or> finalObs = ''ic50''"
    and "ratio (units val)"
    and "default_unit finalObs outUnit = Some u" and "concentration u"
  shows "convertValue val ''pic50'' finalObs T outUnit
         = Return (Some \<lparr>magnitude = 10 powr (- in_root val) / factor u, units = u\<rparr>)"
  using assms unfolding convertValue_def Let_def
  by (auto simp: q_defs unit_defs dim_defs)

lemma value_same_kind:
  assumes "kind = ''dg'' \<or> kind = ''ki'' \<or> kind = ''ic50'' \<or> kind = ''pic50''"
  shows "convertValue val kind kind T outUnit = returning (to val (default_unit kind outUnit))"
  using assms unfolding convertValue_def Let_def by auto

lemma value_conc_conc:
  assumes "originalObs = ''ki'' \<or> originalObs = ''ic50''"
    and "finalObs = ''ki'' \<or> finalObs = ''ic50''"
  shows "convertValue val originalObs finalObs T outUnit
         = returning (to val (default_unit finalObs outUnit))"
  using assms unfolding convertValue_def Let_def by auto

lemma to_units: "to q (Some u) = Return r \<Longrightarrow> units r = u"
  by (auto split: if_splits)

section \<open>Claims about the conversion of values\<close>

text \<open>
  Claim C3. A concentration below \<open>1e-15\<close> molar, of kind \<open>ki\<close> or \<open>ic50\<close>, converts
  to the free energy \<open>0\<close> and to the negative-log-potency \<open>-1e15\<close>, each in the target
  unit (the requested one, or the default of the target kind), at every temperature.
\<close>

theorem degenerate_concentration_value:
  assumes "originalObs = ''ki'' \<or> originalObs = ''ic50''"
    and "concentration (units val)"
    and "in_root val < 1 / 10 ^ 15"
    and "default_unit ''dg'' outUnit = Some u"
    and "default_unit ''pic50'' outUnit = Some w"
  shows "convertValue val originalObs ''dg'' T outUnit
           = Return (Some \<lparr>magnitude = 0, units = u\<rparr>)
       \<and> convertValue val originalObs ''pic50'' T outUnit
           = Return (Some \<lparr>magnitude = - (10 ^ 15), units = w\<rparr>)"
  using value_conc_dg_small [OF assms(1-3), of T outUnit]
    value_conc_pic50_small [OF assms(1-3), of T outUnit] assms(4,5)
  by simp

theorem degenerate_concentration_value_witness:
  "convertValue \<lparr>magnitude = 1 / 10 ^ 16, units = molar\<rparr> ''ki'' ''dg'' 300 None
     = Return (Some \<lparr>magnitude = 0, units = kilocalories_per_mole\<rparr>)
   \<and> convertValue \<lparr>magnitude = 1 / 10 ^ 16, units = molar\<rparr> ''ki'' ''pic50'' 300 None
     = Return (Some \<lparr>magnitude = - (10 ^ 15), units = dimensionless\<rparr>)"
  using degenerate_concentration_value
    [where originalObs = "''ki''" and val = "\<lparr>magnitude = 1 / 10 ^ 16, units = molar\<rparr>"
       and outUnit = None and u = kilocalories_per_mole and w = dimensionless and T = 300]
  by (simp add: concentration_def in_root_def molar_def)

text \<open>
  Claim C6. A source kind outside the four supported ones falls through the outer chain
  of comparisons, which has no final \<open>else\<close>: \<open>convertValue\<close> returns \<^verbatim>\<open>None\<close> instead
  of raising \<^verbatim>\<open>NotImplementedError\<close>. Here the source kind is \<open>kd\<close>.
\<close>

theorem unknown_source_kind_returns_None:
  "convertValue \<lparr>magnitude = 1, units = nanomolar\<rparr> ''kd'' ''dg'' 300 None = Return None"
  unfolding convertValue_def Let_def by simp

text \<open>
  Claim C7. For each of the four kinds, converting a quantity to its own kind is
  \<^verbatim>\<open>val.to(outUnit)\<close> and nothing else: with a target unit of the dimension of the
  value the result carries the target unit and is the same quantity in root units;
  with a target unit of another dimension the unit conversion fails.
\<close>

theorem same_kind_is_unit_conversion:
  assumes "kind = ''dg'' \<or> kind = ''ki'' \<or> kind = ''ic50'' \<or> kind = ''pic50''"
    and "default_unit kind outUnit = Some u"
  shows "convertValue val kind kind T outUnit = returning (to val (Some u))
       \<and> (same_dimension (units val) u \<and> factor u \<noteq> 0 \<longrightarrow>
            (\<exists>r. convertValue val kind kind T outUnit = Return (Some r) \<and> units r = u
                 \<and> in_root r = in_root val))
       \<and> (\<not> same_dimension (units val) u \<longrightarrow>
            convertValue val kind kind T outUnit = Raise DimensionalityError)"
  using value_same_kind [OF assms(1), of val T outUnit] assms(2)
  by (simp add: in_root_def)

theorem same_kind_is_unit_conversion_witness:
  "convertValue \<lparr>magnitude = 2, units = kilocalories_per_mole\<rparr> ''dg'' ''dg'' 300
       (Some \<lparr>factor = 1000, energy = 1, conc = 0, temp = 0\<rparr>)
     = Return (Some \<lparr>magnitude = 8368 / 1000,
                      units = \<lparr>factor = 1000, energy = 1, conc = 0, temp = 0\<rparr>\<rparr>)"
  using same_kind_is_unit_conversion
    [where kind = "''dg''" and val = "\<lparr>magnitude = 2, units = kilocalories_per_mole\<rparr>"
       and outUnit = "Some \<lparr>factor = 1000, energy = 1, conc = 0, temp = 0\<rparr>"
       and u = "\<lparr>factor = 1000, energy = 1, conc = 0, temp = 0\<rparr>" and T = 300]
  by (simp add: same_dimension_def kilocalories_per_mole_def)

lemma value_units_applied:
  assumes "convertValue val originalObs finalObs T (Some u) = Return (Some r)"
    and "\<not> ((originalObs = ''ki'' \<or> originalObs = ''ic50'') \<and> finalObs = ''pic50'')"
  shows "units r = u"
  using assms unfolding convertValue_def Let_def
  by (auto simp: bind_Return_iff returning_Return_iff q_round_def split: if_splits)

text \<open>
  Claim C10. A concentration of at least \<open>1e-15\<close> molar, of kind \<open>ki\<close> or \<open>ic50\<close>,
  converts to the negative-log-potency \<open>-ln(val / molar) / ln 10\<close> as a dimensionless
  quantity whatever output unit was requested: \<open>outUnit\<close> does not occur in the result.
  Every other pair of kinds returns its result in the requested unit.
\<close>

theorem conc_to_pic50_ignores_outUnit:
  "((originalObs = ''ki'' \<or> originalObs = ''ic50'') \<and> concentration (units val)
      \<and> 1 / 10 ^ 15 \<le> in_root val
     \<longrightarrow> convertValue val originalObs ''pic50'' T outUnit
          = Return (Some \<lparr>magnitude = - ln (in_root val) / ln 10, units = dimensionless\<rparr>))
   \<and> (\<not> ((originalObs' = ''ki'' \<or> originalObs' = ''ic50'') \<and> finalObs' = ''pic50'')
      \<and> convertValue val' originalObs' finalObs' T' (Some u) = Return (Some r)
     \<longrightarrow> units r = u)"
  using value_conc_pic50 [of originalObs val T outUnit]
    value_units_applied [of val' originalObs' finalObs' T' u r]
  by blast

theorem conc_to_pic50_ignores_outUnit_witness:
  "convertValue \<lparr>magnitude = 1, units = nanomolar\<rparr> ''ki'' ''pic50'' 300 (Some nanomolar)
     = Return (Some \<lparr>magnitude = - ln (1 / 10 ^ 9) / ln 10, units = dimensionless\<rparr>)
   \<and> convertValue \<lparr>magnitude = 1, units = nanomolar\<rparr> ''ki'' ''ic50'' 300 (Some molar)
     = Return (Some \<lparr>magnitude = 1 / 10 ^ 9, units = molar\<rparr>)
   \<and> units \<lparr>magnitude = 1 / 10 ^ 9, units = molar\<rparr> = molar"
proof -
  have e: "convertValue \<lparr>magnitude = 1, units = nanomolar\<rparr> ''ki'' ''ic50'' 300 (Some molar)
     = Return (Some \<lparr>magnitude = 1 / 10 ^ 9, units = molar\<rparr>)"
    unfolding convertValue_def Let_def by (simp add: unit_defs)
  show ?thesis
    using conc_to_pic50_ignores_outUnit
      [where originalObs = "''ki''" and val = "\<lparr>magnitude = 1, units = nanomolar\<rparr>"
         and T = 300 and outUnit = "Some nanomolar"
         and originalObs' = "''ki''" and finalObs' = "''ic50''"
         and val' = "\<lparr>magnitude = 1, units = nanomolar\<rparr>" and T' = 300 and u = molar
         and r = "\<lparr>magnitude = 1 / 10 ^ 9, units = molar\<rparr>"] e
    by (simp add: concentration_def in_root_def nanomolar_def)
qed

lemma ln_nano: "ln (1 / 10 ^ 9 :: real) = - (9 * ln 10)"
proof -
  have "ln (1 / 10 ^ 9 :: real) = ln 1 - ln (10 ^ 9)"
    by (rule ln_divide_pos) simp_all
  also have "ln ((10::real) ^ 9) = 9 * ln 10"
    using ln_realpow [of "10::real" 9] by simp
  finally show ?thesis by simp
qed

text \<open>
  At temperature zero the quotient \<^verbatim>\<open>-val / (BOLTZMANN * temperature * ureg.kelvin)\<close>
  divides by zero, so the formulas for a free energy as source kind are stated for
  temperatures other than zero.
\<close>

lemma value_dg_conc_zero_temperature:
  "convertValue \<lparr>magnitude = 1, units = kilocalories_per_mole\<rparr> ''dg'' ''ki'' 0 None
     = Raise ZeroDivisionError"
  unfolding convertValue_def Let_def by (simp add: q_defs unit_defs)

text \<open>
  Claim C1, amended. A concentration of at least \<open>1e-15\<close> molar, of kind \<open>ki\<close> or
  \<open>ic50\<close>, converts to the free energy \<open>+R T ln(val / molar)\<close>, expressed in the target
  unit and rounded to two decimals. A free energy converts to the concentration
  \<open>exp(-dg / (R T))\<close> molar, expressed in the target unit, at every temperature other
  than zero.
\<close>

theorem free_energy_relation:
  "((originalObs = ''ki'' \<or> originalObs = ''ic50'') \<and> concentration (units val)
      \<and> 1 / 10 ^ 15 \<le> in_root val \<and> default_unit ''dg'' outUnit = Some u \<and> molar_energy u
     \<longrightarrow> convertValue val originalObs ''dg'' T outUnit
          = Return (Some \<lparr>magnitude = py_round (gas_constant * T * ln (in_root val) / factor u) 2,
                           units = u\<rparr>))
   \<and> ((finalObs = ''ki'' \<or> finalObs = ''ic50'') \<and> molar_energy (units dg) \<and> T' \<noteq> 0
      \<and> default_unit finalObs outUnit' = Some w \<and> concentration w
     \<longrightarrow> convertValue dg ''dg'' finalObs T' outUnit'
          = Return (Some \<lparr>magnitude = exp (- in_root dg / (gas_constant * T')) / factor w,
                           units = w\<rparr>))"
  using value_conc_dg [of originalObs val outUnit u T]
    value_dg_conc [of finalObs dg T' outUnit' w]
  by blast

theorem free_energy_relation_witness:
  "convertValue \<lparr>magnitude = 1, units = nanomolar\<rparr> ''ki'' ''dg'' 300 None
     = Return (Some \<lparr>magnitude = py_round (gas_constant * 300 * ln (1 / 10 ^ 9) / 4184) 2,
                      units = kilocalories_per_mole\<rparr>)
   \<and> convertValue \<lparr>magnitude = 1, units = kilocalories_per_mole\<rparr> ''dg'' ''ki'' 300 None
     = Return (Some \<lparr>magnitude = exp (- 4184 / (gas_constant * 300)) / (1 / 10 ^ 9),
                      units = nanomolar\<rparr>)"
  using free_energy_relation
    [where originalObs = "''ki''" and val = "\<lparr>magnitude = 1, units = nanomolar\<rparr>"
       and outUnit = None and u = kilocalories_per_mole and T = 300
       and finalObs = "''ki''" and dg = "\<lparr>magnitude = 1, units = kilocalories_per_mole\<rparr>"
       and T' = 300 and outUnit' = None and w = nanomolar]
  by (simp add: concentration_def molar_energy_def in_root_def nanomolar_def
      kilocalories_per_mole_def)

lemma nanomolar_dg_negative:
  "gas_constant * 300 * ln (1 / 10 ^ 9) / 4184 \<le> - 1"
proof -
  have "18 < 9 * ln (10::real)" using ln10_lower by simp
  then have l: "ln (1 / 10 ^ 9 :: real) \<le> - 18" unfolding ln_nano by simp
  have "gas_constant * 300 * ln (1 / 10 ^ 9) \<le> gas_constant * 300 * (- 18)"
    using l gas_constant_pos by (intro mult_left_mono) simp_all
  also have "\<dots> \<le> - 4184" unfolding gas_constant_def by simp
  finally show ?thesis by simp
qed

text \<open>
  Claim C1 as stated fails: for one nanomolar at 300 kelvin the code does not return
  \<open>-R T ln(val / molar)\<close> (about +12.35 kilocalories per mole) but its negative.
\<close>

theorem free_energy_sign_counterexample:
  "convertValue \<lparr>magnitude = 1, units = nanomolar\<rparr> ''ki'' ''dg'' 300 None
     \<noteq> Return (Some \<lparr>magnitude = py_round (- (gas_constant * 300 * ln (1 / 10 ^ 9)) / 4184) 2,
                      units = kilocalories_per_mole\<rparr>)"
proof -
  define x where "x = gas_constant * 300 * ln (1 / 10 ^ 9) / 4184"
  have x: "x \<le> - 1" unfolding x_def by (rule nanomolar_dg_negative)
  have "py_round x 2 \<le> x + 1 / 2" by (rule py_round_upper)
  moreover have "- x - 1 / 2 \<le> py_round (- x) 2" by (rule py_round_lower)
  ultimately have ne: "py_round x 2 \<noteq> py_round (- x) 2" using x by linarith
  have "convertValue \<lparr>magnitude = 1, units = nanomolar\<rparr> ''ki'' ''dg'' 300 None
        = Return (Some \<lparr>magnitude = py_round x 2, units = kilocalories_per_mole\<rparr>)"
    unfolding x_def
    using value_conc_dg [where originalObs = "''ki''"
        and val = "\<lparr>magnitude = 1, units = nanomolar\<rparr>"
        and outUnit = None and u = kilocalories_per_mole and T = 300]
    by (simp add: concentration_def molar_energy_def in_root_def nanomolar_def
        kilocalories_per_mole_def)
  moreover have "- (gas_constant * 300 * ln (1 / 10 ^ 9)) / 4184 = - x"
    unfolding x_def by simp
  ultimately show ?thesis using ne by simp
qed

lemma exp_minus_two_lower: "1 / 9 \<le> exp (- 2 :: real)"
proof -
  have "exp (2::real) = exp 1 * exp 1" by (simp flip: exp_add)
  also have "\<dots> \<le> 3 * 3" using exp_one_bounds(2) by (intro mult_mono) simp_all
  finally have "exp (2::real) \<le> 9" by simp
  then have "1 / 9 \<le> 1 / exp (2::real)"
    by (intro divide_left_mono) simp_all
  then show ?thesis by (simp add: exp_minus inverse_eq_divide)
qed

text \<open>
  Claim C2. The round trip from a free energy to an inhibition constant and back, at
  the same temperature and into the unit of the original value, does not reproduce
  the value: one kilocalorie per mole comes back as minus one kilocalorie per mole.
\<close>

theorem round_trip_through_ki_flips_sign:
  "convertValue \<lparr>magnitude = 1, units = kilocalories_per_mole\<rparr> ''dg'' ''ki'' 300 None
     = Return (Some \<lparr>magnitude = exp (- 4184 / (gas_constant * 300)) / (1 / 10 ^ 9),
                      units = nanomolar\<rparr>)
   \<and> convertValue \<lparr>magnitude = exp (- 4184 / (gas_constant * 300)) / (1 / 10 ^ 9),
                    units = nanomolar\<rparr> ''ki'' ''dg'' 300 (Some kilocalories_per_mole)
     = Return (Some \<lparr>magnitude = - 1, units = kilocalories_per_mole\<rparr>)"
proof -
  define a where "a = 4184 / (gas_constant * 300)"
  define k where "k = \<lparr>magnitude = exp (- a) / (1 / 10 ^ 9), units = nanomolar\<rparr>"
  have forth: "convertValue \<lparr>magnitude = 1, units = kilocalories_per_mole\<rparr> ''dg'' ''ki'' 300 None
      = Return (Some k)"
    unfolding k_def a_def
    using value_dg_conc [where finalObs = "''ki''"
        and val = "\<lparr>magnitude = 1, units = kilocalories_per_mole\<rparr>"
        and T = 300 and outUnit = None and u = nanomolar]
    by (simp add: concentration_def molar_energy_def in_root_def nanomolar_def
        kilocalories_per_mole_def)
  have root: "in_root k = exp (- a)"
    unfolding k_def in_root_def nanomolar_def by simp
  have "a \<le> 2" unfolding a_def gas_constant_def by simp
  then have "exp (- 2) \<le> exp (- a)" by simp
  with exp_minus_two_lower have "1 / 9 \<le> exp (- a)" by linarith
  then have big: "1 / 10 ^ 15 \<le> in_root k" unfolding root by simp
  have "gas_constant * 300 * ln (in_root k) / 4184 = - 1"
    unfolding root a_def using gas_constant_pos by simp
  then have "py_round (gas_constant * 300 * ln (in_root k) / factor kilocalories_per_mole) 2 = - 1"
    using py_round_of_int [of "- 1" 2] by (simp add: kilocalories_per_mole_def)
  then have homeward: "convertValue k ''ki'' ''dg'' 300 (Some kilocalories_per_mole)
      = Return (Some \<lparr>magnitude = - 1, units = kilocalories_per_mole\<rparr>)"
    using value_conc_dg [where originalObs = "''ki''" and val = k and T = 300
        and outUnit = "Some kilocalories_per_mole" and u = kilocalories_per_mole] big
    by (simp add: concentration_def molar_energy_def k_def nanomolar_def
        kilocalories_per_mole_def)
  from forth homeward show ?thesis unfolding k_def a_def by simp
qed

lemma error_conc_pic50_small:
  assumes "originalObs = ''ki'' \<or> originalObs = ''ic50''"
    and "concentration (units val)" and "in_root val * ln 10 < 1 / 10 ^ 15"
  shows "convertError eVal val originalObs ''pic50'' T outUnit
         = returning (times_unit (10 ^ 15) (default_unit ''pic50'' outUnit))"
  using assms unfolding convertError_def Let_def
  by (auto simp: q_defs unit_defs dim_defs mult_ac)

lemma error_conc_pic50:
  assumes "originalObs = ''ki'' \<or> originalObs = ''ic50''"
    and "concentration (units val)" and "1 / 10 ^ 15 \<le> in_root val * ln 10"
    and "concentration (units eVal)"
    and "default_unit ''pic50'' outUnit = Some u" and "ratio u"
  shows "convertError eVal val originalObs ''pic50'' T outUnit
         = Return (Some \<lparr>magnitude = py_round (in_root eVal / (in_root val * ln 10) / factor u) 2,
                          units = u\<rparr>)"
proof -
  have nl: "\<not> magnitude val * ln 10 * factor (units val) < 1 / 10 ^ 15"
    using assms(3) unfolding in_root_def by (simp add: mult_ac)
  have "0 < in_root val * ln 10"
    using assms(3) by (rule less_le_trans [rotated]) simp
  then have nz: "magnitude val \<noteq> 0" "factor (units val) \<noteq> 0"
    unfolding in_root_def by auto
  show ?thesis
    using assms(1,2,4,5,6) nl nz ln10_neq0 unfolding convertError_def Let_def
    by (elim disjE; simp add: q_defs unit_defs dim_defs mult_ac)
qed

section \<open>Claims about the conversion of errors\<close>

text \<open>
  Claim C4, amended. For a concentration \<open>val\<close> of kind \<open>ki\<close> or \<open>ic50\<close> with
  \<open>val * ln 10\<close> below \<open>1e-15\<close> molar, that is \<open>val\<close> below \<open>1e-15 / ln 10\<close> molar,
  the error of the negative-log-potency is the saturating value \<open>+1e15\<close> in the target
  unit, for every error \<open>eVal\<close> and every temperature.
\<close>

theorem degenerate_concentration_error:
  assumes "originalObs = ''ki'' \<or> originalObs = ''ic50''"
    and "concentration (units val)"
    and "in_root val * ln 10 < 1 / 10 ^ 15"
    and "default_unit ''pic50'' outUnit = Some u"
  shows "convertError eVal val originalObs ''pic50'' T outUnit
           = Return (Some \<lparr>magnitude = 10 ^ 15, units = u\<rparr>)"
  using error_conc_pic50_small [OF assms(1-3), of eVal T outUnit] assms(4)
  by simp

theorem degenerate_concentration_error_witness:
  "convertError \<lparr>magnitude = 1 / 10 ^ 16, units = molar\<rparr>
       \<lparr>magnitude = 1 / 10 ^ 16, units = molar\<rparr> ''ki'' ''pic50'' 300 None
     = Return (Some \<lparr>magnitude = 10 ^ 15, units = dimensionless\<rparr>)"
proof -
  have "1 / 10 ^ 16 * ln (10::real) < 1 / 10 ^ 16 * 3"
    using ln10_upper by (intro mult_strict_left_mono) simp_all
  then have "1 / 10 ^ 16 * ln (10::real) < 1 / 10 ^ 15" by simp
  then show ?thesis
    using degenerate_concentration_error
      [where originalObs = "''ki''" and val = "\<lparr>magnitude = 1 / 10 ^ 16, units = molar\<rparr>"
         and eVal = "\<lparr>magnitude = 1 / 10 ^ 16, units = molar\<rparr>"
         and outUnit = None and u = dimensionless and T = 300]
    by (simp add: concentration_def in_root_def molar_def)
qed

text \<open>
  Claim C4 as stated fails: \<open>5e-16\<close> molar is below \<open>1e-15\<close> molar, but the guard of
  \<open>convertError\<close> compares \<open>val * ln 10\<close> with the threshold, so the derivative formula
  is evaluated and the result is not \<open>+1e15\<close>.
\<close>

theorem error_threshold_counterexample:
  "convertError \<lparr>magnitude = 1 / 10 ^ 16, units = molar\<rparr>
       \<lparr>magnitude = 5 / 10 ^ 16, units = molar\<rparr> ''ki'' ''pic50'' 300 None
     \<noteq> Return (Some \<lparr>magnitude = 10 ^ 15, units = dimensionless\<rparr>)"
proof -
  define x where "x = (1 / 10 ^ 16) / (5 / 10 ^ 16 * ln (10::real))"
  have "5 / 10 ^ 16 * 2 \<le> 5 / 10 ^ 16 * ln (10::real)"
    using ln10_lower by (intro mult_left_mono) simp_all
  then have big: "1 / 10 ^ 15 \<le> 5 / 10 ^ 16 * ln (10::real)" by simp
  have "x = 1 / (5 * ln 10)" unfolding x_def by simp
  also have "\<dots> \<le> 1 / (5 * 2)"
    using ln10_lower by (intro divide_left_mono) simp_all
  finally have "x \<le> 1 / 10" by simp
  moreover have "py_round x 2 \<le> x + 1 / 2" by (rule py_round_upper)
  moreover have "(1::real) < 10 ^ 15" by simp
  ultimately have ne: "py_round x 2 \<noteq> 10 ^ 15" by linarith
  have "convertError \<lparr>magnitude = 1 / 10 ^ 16, units = molar\<rparr>
       \<lparr>magnitude = 5 / 10 ^ 16, units = molar\<rparr> ''ki'' ''pic50'' 300 None
     = Return (Some \<lparr>magnitude = py_round x 2, units = dimensionless\<rparr>)"
    unfolding x_def
    using error_conc_pic50 [where originalObs = "''ki''"
        and val = "\<lparr>magnitude = 5 / 10 ^ 16, units = molar\<rparr>"
        and eVal = "\<lparr>magnitude = 1 / 10 ^ 16, units = molar\<rparr>"
        and outUnit = None and u = dimensionless and T = 300] big
    by (simp add: concentration_def ratio_def in_root_def molar_def dimensionless_def)
  then show ?thesis using ne by simp
qed

lemma two_decimals_int: "two_decimals (of_int k)"
proof -
  have "of_int k * (100::real) = of_int (k * 100)" by simp
  then show ?thesis unfolding two_decimals_def by (simp only: floor_of_int)
qed

lemma two_decimals_consts: "two_decimals 0" "two_decimals (numeral n)"
  using two_decimals_int [of 0] two_decimals_int [of "numeral n"] by simp_all

lemma times_unit_Return_iff:
  "times_unit x ou = Return r \<longleftrightarrow> (\<exists>u. ou = Some u \<and> r = \<lparr>magnitude = x, units = u\<rparr>)"
  by (cases ou) auto

lemma value_dg_rounded:
  assumes "originalObs = ''ki'' \<or> originalObs = ''ic50'' \<or> originalObs = ''pic50''"
    and "convertValue val originalObs ''dg'' T outUnit = Return (Some r)"
  shows "two_decimals (magnitude r)"
  using assms unfolding convertValue_def Let_def
  by (elim disjE; auto simp: bind_Return_iff returning_Return_iff times_unit_Return_iff
        q_round_def two_decimals_py_round two_decimals_consts split: if_splits)

lemma error_rounded:
  assumes "(originalObs = ''ki'' \<or> originalObs = ''ic50'' \<or> originalObs = ''pic50'')
             \<and> finalObs = ''dg''
           \<or> (originalObs = ''ki'' \<or> originalObs = ''ic50'') \<and> finalObs = ''pic50''
           \<or> originalObs = ''pic50''
             \<and> (finalObs = ''ki'' \<or> finalObs = ''ic50'' \<or> finalObs = ''pic50'')"
    and "convertError eVal val originalObs finalObs T outUnit = Return (Some r)"
  shows "two_decimals (magnitude r)"
  using assms unfolding convertError_def Let_def
  by (elim disjE conjE; auto simp: bind_Return_iff returning_Return_iff times_unit_Return_iff
        q_round_def two_decimals_py_round two_decimals_consts split: if_splits)

lemma error_unit_conversion_only:
  assumes "originalObs = ''dg'' \<and> finalObs = ''dg''
           \<or> (originalObs = ''ki'' \<or> originalObs = ''ic50'')
             \<and> (finalObs = ''ki'' \<or> finalObs = ''ic50'')"
  shows "convertError eVal val originalObs finalObs T outUnit
         = returning (to eVal (default_unit finalObs outUnit))"
  using assms unfolding convertError_def Let_def by auto

lemma error_dg_conc:
  assumes "finalObs = ''ki'' \<or> finalObs = ''ic50''"
    and "molar_energy (units val)" and "molar_energy (units eVal)" and "T \<noteq> 0"
    and "default_unit finalObs outUnit = Some u" and "concentration u"
  shows "convertError eVal val ''dg'' finalObs T outUnit
         = Return (Some \<lparr>magnitude = in_root eVal * exp (- in_root val / (gas_constant * T))
                                        / (gas_constant * T) / factor u,
                          units = u\<rparr>)"
  using assms gas_constant_pos unfolding convertError_def Let_def
  by (elim disjE; simp add: q_defs unit_defs dim_defs mult_ac)

lemma error_dg_pic50:
  assumes "molar_energy (units eVal)" and "T \<noteq> 0"
    and "default_unit ''pic50'' outUnit = Some u" and "ratio u"
  shows "convertError eVal val ''dg'' ''pic50'' T outUnit
         = Return (Some \<lparr>magnitude = in_root eVal / (gas_constant * T * ln 10) / factor u,
                          units = u\<rparr>)"
  using assms gas_constant_pos ln10_neq0 unfolding convertError_def Let_def
  by (simp add: q_defs unit_defs dim_defs mult_ac)

lemma value_unit_conversion_only:
  assumes "originalObs = ''dg'' \<and> finalObs = ''dg''
           \<or> (originalObs = ''ki'' \<or> originalObs = ''ic50'')
             \<and> (finalObs = ''ki'' \<or> finalObs = ''ic50'')
           \<or> originalObs = ''pic50'' \<and> finalObs = ''pic50''"
  shows "convertValue val originalObs finalObs T outUnit
         = returning (to val (default_unit finalObs outUnit))"
  using assms unfolding convertValue_def Let_def by auto

lemma rint_example: "rint (617 / 5) = 123"
proof -
  have "\<lfloor>617 / 5 :: real\<rfloor> = 123" by linarith
  then show ?thesis unfolding rint_def Let_def by simp
qed

lemma error_pic50_pic50_example:
  "convertError \<lparr>magnitude = 1234 / 1000, units = dimensionless\<rparr>
         \<lparr>magnitude = 7, units = dimensionless\<rparr> ''pic50'' ''pic50'' 300 None
     = Return (Some \<lparr>magnitude = 123 / 100, units = dimensionless\<rparr>)"
proof -
  have "py_round (1234 / 1000) 2 = 123 / 100"
    unfolding py_round_def using rint_example by simp
  then show ?thesis
    unfolding convertError_def Let_def by (simp add: unit_defs q_round_def)
qed

text \<open>
  Claim C5 as stated fails in both directions: the conversion of a free energy to a
  free energy returns 1.234 kilocalories per mole unrounded, and the error of a
  negative-log-potency, a ratio, is rounded from 1.234 to 1.23.
\<close>

theorem rounding_pattern_counterexample:
  "convertValue \<lparr>magnitude = 1234 / 1000, units = kilocalories_per_mole\<rparr> ''dg'' ''dg'' 300 None
     = Return (Some \<lparr>magnitude = 1234 / 1000, units = kilocalories_per_mole\<rparr>)
   \<and> \<not> two_decimals (1234 / 1000)
   \<and> convertError \<lparr>magnitude = 1234 / 1000, units = dimensionless\<rparr>
         \<lparr>magnitude = 7, units = dimensionless\<rparr> ''pic50'' ''pic50'' 300 None
     = Return (Some \<lparr>magnitude = 123 / 100, units = dimensionless\<rparr>)"
proof -
  have a: "convertValue \<lparr>magnitude = 1234 / 1000, units = kilocalories_per_mole\<rparr>
             ''dg'' ''dg'' 300 None
           = Return (Some \<lparr>magnitude = 1234 / 1000, units = kilocalories_per_mole\<rparr>)"
    unfolding convertValue_def Let_def by (simp add: unit_defs)
  have "\<lfloor>1234 / 1000 * 100 :: real\<rfloor> = 123" by linarith
  then have b: "\<not> two_decimals (1234 / 1000)" unfolding two_decimals_def by simp
  from a b error_pic50_pic50_example show ?thesis by blast
qed

lemma error_conc_dg_small:
  assumes "originalObs = ''ki'' \<or> originalObs = ''ic50''"
    and "concentration (units val)" and "in_root val < 1 / 10 ^ 15"
  shows "convertError eVal val originalObs ''dg'' T outUnit
         = returning (times_unit 0 (default_unit ''dg'' outUnit))"
  using assms unfolding convertError_def Let_def
  by (elim disjE; simp add: q_defs unit_defs dim_defs)

lemma error_conc_dg:
  assumes "originalObs = ''ki'' \<or> originalObs = ''ic50''"
    and "concentration (units val)" and "1 / 10 ^ 15 \<le> in_root val"
    and "concentration (units eVal)"
    and "default_unit ''dg'' outUnit = Some u" and "molar_energy u"
  shows "convertError eVal val originalObs ''dg'' T outUnit
         = Return (Some \<lparr>magnitude =
                            py_round (gas_constant * T * in_root eVal / in_root val / factor u) 2,
                          units = u\<rparr>)"
proof -
  have nl: "\<not> magnitude val * factor (units val) < 1 / 10 ^ 15"
    using assms(3) unfolding in_root_def by simp
  have "0 < in_root val"
    using assms(3) by (rule less_le_trans [rotated]) simp
  then have nz: "magnitude val \<noteq> 0" "factor (units val) \<noteq> 0"
    unfolding in_root_def by auto
  show ?thesis
    using assms(1,2,4,5,6) nl nz unfolding convertError_def Let_def
    by (elim disjE; simp add: q_defs unit_defs dim_defs mult_ac)
qed

lemma error_pic50_dg:
  assumes "ratio (units eVal)"
    and "default_unit ''dg'' outUnit = Some u" and "molar_energy u"
  shows "convertError eVal val ''pic50'' ''dg'' T outUnit
         = Return (Some \<lparr>magnitude =
                            py_round (gas_constant * T * ln 10 * in_root eVal / factor u) 2,
                          units = u\<rparr>)"
  using assms unfolding convertError_def Let_def
  by (simp add: q_defs unit_defs dim_defs mult_ac)

lemma error_pic50_conc:
  assumes "finalObs = ''ki'' \<or> finalObs = ''ic50''"
    and "ratio (units val)" and "ratio (units eVal)"
    and "default_unit finalObs outUnit = Some u" and "concentration u"
  shows "convertError eVal val ''pic50'' finalObs T outUnit
         = Return (Some \<lparr>magnitude =
                            py_round (ln 10 * 10 powr (- in_root val) * in_root eVal / factor u) 2,
                          units = u\<rparr>)"
  using assms unfolding convertError_def Let_def
  by (elim disjE; simp add: q_defs unit_defs dim_defs mult_ac)

lemma error_pic50_pic50:
  assumes "default_unit ''pic50'' outUnit = Some u" and "same_dimension (units eVal) u"
  shows "convertError eVal val ''pic50'' ''pic50'' T outUnit
         = Return (Some \<lparr>magnitude = py_round (in_root eVal / factor u) 2, units = u\<rparr>)"
  using assms unfolding convertError_def Let_def
  by (simp add: q_defs)

text \<open>
  Claim C5, amended. In \<open>convertValue\<close> and \<open>convertError\<close> a result with the target kind
  \<open>dg\<close> and the source kind \<open>ki\<close>, \<open>ic50\<close> or \<open>pic50\<close> is the value of its formula,
  converted to the target unit and then rounded to two decimals there (or the exact
  \<open>0\<close> of the degenerate case); so are, in \<open>convertError\<close>, the error of a
  negative-log-potency from \<open>ki\<close> or \<open>ic50\<close> and every error converted from \<open>pic50\<close>.
  A rounded magnitude is a whole multiple of a hundredth. The conversion from \<open>dg\<close> to
  \<open>dg\<close> is a unit conversion without rounding, as are the conversions between \<open>ki\<close>
  and \<open>ic50\<close> and, for values, from \<open>pic50\<close> to \<open>pic50\<close>. The remaining results with
  target kinds \<open>ki\<close>, \<open>ic50\<close> and \<open>pic50\<close> are the exact values of their formulas.
\<close>

theorem rounding_pattern:
  "((co = ''ki'' \<or> co = ''ic50'') \<and> concentration (units c) \<and> 1 / 10 ^ 15 \<le> in_root c
      \<and> concentration (units ec) \<and> default_unit ''dg'' oue = Some ue \<and> molar_energy ue
     \<longrightarrow> convertValue c co ''dg'' T oue
          = Return (Some (q_round \<lparr>magnitude = gas_constant * T * ln (in_root c) / factor ue,
                                   units = ue\<rparr> 2))
        \<and> convertError ec c co ''dg'' T oue
          = Return (Some (q_round \<lparr>magnitude = gas_constant * T * in_root ec / in_root c
                                                 / factor ue,
                                   units = ue\<rparr> 2)))
   \<and> ((co = ''ki'' \<or> co = ''ic50'') \<and> concentration (units z) \<and> in_root z < 1 / 10 ^ 15
      \<and> default_unit ''dg'' oue = Some ue
     \<longrightarrow> convertValue z co ''dg'' T oue = Return (Some \<lparr>magnitude = 0, units = ue\<rparr>)
        \<and> convertError ez z co ''dg'' T oue = Return (Some \<lparr>magnitude = 0, units = ue\<rparr>))
   \<and> (ratio (units p) \<and> ratio (units ep) \<and> default_unit ''dg'' oue = Some ue \<and> molar_energy ue
     \<longrightarrow> convertValue p ''pic50'' ''dg'' T oue
          = Return (Some (q_round \<lparr>magnitude = - (gas_constant * T * in_root p * ln 10) / factor ue,
                                   units = ue\<rparr> 2))
        \<and> convertError ep p ''pic50'' ''dg'' T oue
          = Return (Some (q_round \<lparr>magnitude = gas_constant * T * ln 10 * in_root ep / factor ue,
                                   units = ue\<rparr> 2)))
   \<and> ((co = ''ki'' \<or> co = ''ic50'') \<and> concentration (units c)
      \<and> 1 / 10 ^ 15 \<le> in_root c * ln 10 \<and> concentration (units ec)
      \<and> default_unit ''pic50'' our = Some ur \<and> ratio ur
     \<longrightarrow> convertError ec c co ''pic50'' T our
          = Return (Some (q_round \<lparr>magnitude = in_root ec / (in_root c * ln 10) / factor ur,
                                   units = ur\<rparr> 2)))
   \<and> ((cf = ''ki'' \<or> cf = ''ic50'') \<and> ratio (units p) \<and> ratio (units ep)
      \<and> default_unit cf ouc = Some uc \<and> concentration uc
     \<longrightarrow> convertError ep p ''pic50'' cf T ouc
          = Return (Some (q_round \<lparr>magnitude = ln 10 * 10 powr (- in_root p) * in_root ep
                                                 / factor uc,
                                   units = uc\<rparr> 2)))
   \<and> (default_unit ''pic50'' our = Some ur \<and> same_dimension (units ep) ur
     \<longrightarrow> convertError ep p ''pic50'' ''pic50'' T our
          = Return (Some (q_round \<lparr>magnitude = in_root ep / factor ur, units = ur\<rparr> 2)))
   \<and> two_decimals (magnitude (q_round q 2))
   \<and> (o3 = ''dg'' \<and> f3 = ''dg''
        \<or> (o3 = ''ki'' \<or> o3 = ''ic50'') \<and> (f3 = ''ki'' \<or> f3 = ''ic50'')
        \<or> o3 = ''pic50'' \<and> f3 = ''pic50''
     \<longrightarrow> convertValue v3 o3 f3 T3 ou3 = returning (to v3 (default_unit f3 ou3)))
   \<and> (o4 = ''dg'' \<and> f4 = ''dg''
        \<or> (o4 = ''ki'' \<or> o4 = ''ic50'') \<and> (f4 = ''ki'' \<or> f4 = ''ic50'')
     \<longrightarrow> convertError e4 v4 o4 f4 T4 ou4 = returning (to e4 (default_unit f4 ou4)))
   \<and> ((cf = ''ki'' \<or> cf = ''ic50'') \<and> molar_energy (units g) \<and> molar_energy (units eg)
      \<and> T \<noteq> 0 \<and> default_unit cf ouc = Some uc \<and> concentration uc
     \<longrightarrow> convertValue g ''dg'' cf T ouc
          = Return (Some \<lparr>magnitude = exp (- in_root g / (gas_constant * T)) / factor uc,
                           units = uc\<rparr>)
        \<and> convertError eg g ''dg'' cf T ouc
          = Return (Some \<lparr>magnitude = in_root eg * exp (- in_root g / (gas_constant * T))
                                         / (gas_constant * T) / factor uc,
                           units = uc\<rparr>))
   \<and> (molar_energy (units g) \<and> molar_energy (units eg) \<and> T \<noteq> 0
      \<and> default_unit ''pic50'' our = Some ur \<and> ratio ur
     \<longrightarrow> convertValue g ''dg'' ''pic50'' T our
          = Return (Some \<lparr>magnitude = in_root g / (gas_constant * T) / ln 10 / factor ur,
                           units = ur\<rparr>)
        \<and> convertError eg g ''dg'' ''pic50'' T our
          = Return (Some \<lparr>magnitude = in_root eg / (gas_constant * T * ln 10) / factor ur,
                           units = ur\<rparr>))
   \<and> ((co = ''ki'' \<or> co = ''ic50'') \<and> concentration (units c) \<and> 1 / 10 ^ 15 \<le> in_root c
     \<longrightarrow> convertValue c co ''pic50'' T our
          = Return (Some \<lparr>magnitude = - ln (in_root c) / ln 10, units = dimensionless\<rparr>))
   \<and> ((cf = ''ki'' \<or> cf = ''ic50'') \<and> ratio (units p)
      \<and> default_unit cf ouc = Some uc \<and> concentration uc
     \<longrightarrow> convertValue p ''pic50'' cf T ouc
          = Return (Some \<lparr>magnitude = 10 powr (- in_root p) / factor uc, units = uc\<rparr>))"
proof (intro conjI impI)
  assume h: "(co = ''ki'' \<or> co = ''ic50'') \<and> concentration (units c) \<and> 1 / 10 ^ 15 \<le> in_root c
      \<and> concentration (units ec) \<and> default_unit ''dg'' oue = Some ue \<and> molar_energy ue"
  then show "convertValue c co ''dg'' T oue
          = Return (Some (q_round \<lparr>magnitude = gas_constant * T * ln (in_root c) / factor ue,
                                   units = ue\<rparr> 2))"
    using value_conc_dg [of co c oue ue T] by (simp add: q_round_def)
  from h show "convertError ec c co ''dg'' T oue
          = Return (Some (q_round \<lparr>magnitude = gas_constant * T * in_root ec / in_root c
                                                 / factor ue,
                                   units = ue\<rparr> 2))"
    using error_conc_dg [of co c ec oue ue T] by (simp add: q_round_def)
next
  assume h: "(co = ''ki'' \<or> co = ''ic50'') \<and> concentration (units z) \<and> in_root z < 1 / 10 ^ 15
      \<and> default_unit ''dg'' oue = Some ue"
  then show "convertValue z co ''dg'' T oue = Return (Some \<lparr>magnitude = 0, units = ue\<rparr>)"
    using value_conc_dg_small [of co z T oue] by simp
  from h show "convertError ez z co ''dg'' T oue = Return (Some \<lparr>magnitude = 0, units = ue\<rparr>)"
    using error_conc_dg_small [of co z ez T oue] by simp
next
  assume h: "ratio (units p) \<and> ratio (units ep) \<and> default_unit ''dg'' oue = Some ue
      \<and> molar_energy ue"
  then show "convertValue p ''pic50'' ''dg'' T oue
          = Return (Some (q_round \<lparr>magnitude = - (gas_constant * T * in_root p * ln 10) / factor ue,
                                   units = ue\<rparr> 2))"
    using value_pic50_dg [of p oue ue T] by (simp add: q_round_def)
  from h show "convertError ep p ''pic50'' ''dg'' T oue
          = Return (Some (q_round \<lparr>magnitude = gas_constant * T * ln 10 * in_root ep / factor ue,
                                   units = ue\<rparr> 2))"
    using error_pic50_dg [of ep oue ue p T] by (simp add: q_round_def)
next
  assume "(co = ''ki'' \<or> co = ''ic50'') \<and> concentration (units c)
      \<and> 1 / 10 ^ 15 \<le> in_root c * ln 10 \<and> concentration (units ec)
      \<and> default_unit ''pic50'' our = Some ur \<and> ratio ur"
  then show "convertError ec c co ''pic50'' T our
          = Return (Some (q_round \<lparr>magnitude = in_root ec / (in_root c * ln 10) / factor ur,
                                   units = ur\<rparr> 2))"
    using error_conc_pic50 [of co c ec our ur T] by (simp add: q_round_def)
next
  assume "(cf = ''ki'' \<or> cf = ''ic50'') \<and> ratio (units p) \<and> ratio (units ep)
      \<and> default_unit cf ouc = Some uc \<and> concentration uc"
  then show "convertError ep p ''pic50'' cf T ouc
          = Return (Some (q_round \<lparr>magnitude = ln 10 * 10 powr (- in_root p) * in_root ep
                                                 / factor uc,
                                   units = uc\<rparr> 2))"
    using error_pic50_conc [of cf p ep ouc uc T] by (simp add: q_round_def)
next
  assume "default_unit ''pic50'' our = Some ur \<and> same_dimension (units ep) ur"
  then show "convertError ep p ''pic50'' ''pic50'' T our
          = Return (Some (q_round \<lparr>magnitude = in_root ep / factor ur, units = ur\<rparr> 2))"
    using error_pic50_pic50 [of our ur ep p T] by (simp add: q_round_def)
next
  show "two_decimals (magnitude (q_round q 2))"
    by (simp add: q_round_def two_decimals_py_round)
next
  assume "o3 = ''dg'' \<and> f3 = ''dg''
        \<or> (o3 = ''ki'' \<or> o3 = ''ic50'') \<and> (f3 = ''ki'' \<or> f3 = ''ic50'')
        \<or> o3 = ''pic50'' \<and> f3 = ''pic50''"
  then show "convertValue v3 o3 f3 T3 ou3 = returning (to v3 (default_unit f3 ou3))"
    by (rule value_unit_conversion_only)
next
  assume "o4 = ''dg'' \<and> f4 = ''dg''
        \<or> (o4 = ''ki'' \<or> o4 = ''ic50'') \<and> (f4 = ''ki'' \<or> f4 = ''ic50'')"
  then show "convertError e4 v4 o4 f4 T4 ou4 = returning (to e4 (default_unit f4 ou4))"
    by (rule error_unit_conversion_only)
next
  assume h: "(cf = ''ki'' \<or> cf = ''ic50'') \<and> molar_energy (units g) \<and> molar_energy (units eg)
      \<and> T \<noteq> 0 \<and> default_unit cf ouc = Some uc \<and> concentration uc"
  then show "convertValue g ''dg'' cf T ouc
          = Return (Some \<lparr>magnitude = exp (- in_root g / (gas_constant * T)) / factor uc,
                           units = uc\<rparr>)"
    using value_dg_conc [of cf g T ouc uc] by blast
  from h show "convertError eg g ''dg'' cf T ouc
          = Return (Some \<lparr>magnitude = in_root eg * exp (- in_root g / (gas_constant * T))
                                         / (gas_constant * T) / factor uc,
                           units = uc\<rparr>)"
    using error_dg_conc [of cf g eg T ouc uc] by blast
next
  assume h: "molar_energy (units g) \<and> molar_energy (units eg) \<and> T \<noteq> 0
      \<and> default_unit ''pic50'' our = Some ur \<and> ratio ur"
  then show "convertValue g ''dg'' ''pic50'' T our
          = Return (Some \<lparr>magnitude = in_root g / (gas_constant * T) / ln 10 / factor ur,
                           units = ur\<rparr>)"
    using value_dg_pic50 [of g T our ur] by blast
  from h show "convertError eg g ''dg'' ''pic50'' T our
          = Return (Some \<lparr>magnitude = in_root eg / (gas_constant * T * ln 10) / factor ur,
                           units = ur\<rparr>)"
    using error_dg_pic50 [of eg T our ur g] by blast
next
  assume "(co = ''ki'' \<or> co = ''ic50'') \<and> concentration (units c) \<and> 1 / 10 ^ 15 \<le> in_root c"
  then show "convertValue c co ''pic50'' T our
          = Return (Some \<lparr>magnitude = - ln (in_root c) / ln 10, units = dimensionless\<rparr>)"
    using value_conc_pic50 [of co c T our] by blast
next
  assume "(cf = ''ki'' \<or> cf = ''ic50'') \<and> ratio (units p)
      \<and> default_unit cf ouc = Some uc \<and> concentration uc"
  then show "convertValue p ''pic50'' cf T ouc
          = Return (Some \<lparr>magnitude = 10 powr (- in_root p) / factor uc, units = uc\<rparr>)"
    using value_pic50_conc [of cf p ouc uc T] by blast
qed

theorem rounding_pattern_witness:
  "convertValue \<lparr>magnitude = 1, units = nanomolar\<rparr> ''ki'' ''dg'' 300 None
     = Return (Some (q_round \<lparr>magnitude = gas_constant * 300 * ln (1 / 10 ^ 9) / 4184,
                              units = kilocalories_per_mole\<rparr> 2))
   \<and> convertError \<lparr>magnitude = 1 / 10, units = nanomolar\<rparr> \<lparr>magnitude = 1, units = nanomolar\<rparr>
         ''ki'' ''dg'' 300 None
     = Return (Some (q_round \<lparr>magnitude = gas_constant * 300 * (1 / 10 ^ 10) / (1 / 10 ^ 9) / 4184,
                              units = kilocalories_per_mole\<rparr> 2))
   \<and> convertValue \<lparr>magnitude = 1 / 10 ^ 16, units = molar\<rparr> ''ki'' ''dg'' 300 None
     = Return (Some \<lparr>magnitude = 0, units = kilocalories_per_mole\<rparr>)
   \<and> convertError \<lparr>magnitude = 1, units = molar\<rparr> \<lparr>magnitude = 1 / 10 ^ 16, units = molar\<rparr>
         ''ki'' ''dg'' 300 None
     = Return (Some \<lparr>magnitude = 0, units = kilocalories_per_mole\<rparr>)
   \<and> convertValue \<lparr>magnitude = 9, units = dimensionless\<rparr> ''pic50'' ''dg'' 300 None
     = Return (Some (q_round \<lparr>magnitude = - (gas_constant * 300 * 9 * ln 10) / 4184,
                              units = kilocalories_per_mole\<rparr> 2))
   \<and> convertError \<lparr>magnitude = 1234 / 1000, units = dimensionless\<rparr>
         \<lparr>magnitude = 9, units = dimensionless\<rparr> ''pic50'' ''dg'' 300 None
     = Return (Some (q_round \<lparr>magnitude = gas_constant * 300 * ln 10 * (1234 / 1000) / 4184,
                              units = kilocalories_per_mole\<rparr> 2))
   \<and> convertError \<lparr>magnitude = 1 / 10, units = nanomolar\<rparr> \<lparr>magnitude = 1, units = nanomolar\<rparr>
         ''ki'' ''pic50'' 300 None
     = Return (Some (q_round \<lparr>magnitude = (1 / 10 ^ 10) / (1 / 10 ^ 9 * ln 10) / 1,
                              units = dimensionless\<rparr> 2))
   \<and> convertError \<lparr>magnitude = 1234 / 1000, units = dimensionless\<rparr>
         \<lparr>magnitude = 9, units = dimensionless\<rparr> ''pic50'' ''ki'' 300 None
     = Return (Some (q_round \<lparr>magnitude = ln 10 * 10 powr (- 9) * (1234 / 1000) / (1 / 10 ^ 9),
                              units = nanomolar\<rparr> 2))
   \<and> convertError \<lparr>magnitude = 1234 / 1000, units = dimensionless\<rparr>
         \<lparr>magnitude = 9, units = dimensionless\<rparr> ''pic50'' ''pic50'' 300 None
     = Return (Some (q_round \<lparr>magnitude = 1234 / 1000, units = dimensionless\<rparr> 2))
   \<and> two_decimals (magnitude (q_round \<lparr>magnitude = 1234 / 1000, units = dimensionless\<rparr> 2))
   \<and> convertValue \<lparr>magnitude = 2, units = kilocalories_per_mole\<rparr> ''dg'' ''dg'' 300 None
       = Return (Some \<lparr>magnitude = 2, units = kilocalories_per_mole\<rparr>)
   \<and> convertError \<lparr>magnitude = 3, units = nanomolar\<rparr> \<lparr>magnitude = 50, units = nanomolar\<rparr>
         ''ki'' ''ic50'' 300 None
       = Return (Some \<lparr>magnitude = 3, units = nanomolar\<rparr>)
   \<and> convertValue \<lparr>magnitude = 1, units = kilocalories_per_mole\<rparr> ''dg'' ''ki'' 300 None
       = Return (Some \<lparr>magnitude = exp (- 4184 / (gas_constant * 300)) / (1 / 10 ^ 9),
                        units = nanomolar\<rparr>)
   \<and> convertError \<lparr>magnitude = 1 / 10, units = kilocalories_per_mole\<rparr>
         \<lparr>magnitude = 1, units = kilocalories_per_mole\<rparr> ''dg'' ''ki'' 300 None
       = Return (Some \<lparr>magnitude = (1 / 10 * 4184) * exp (- 4184 / (gas_constant * 300))
                                      / (gas_constant * 300) / (1 / 10 ^ 9),
                        units = nanomolar\<rparr>)
   \<and> convertValue \<lparr>magnitude = 1, units = kilocalories_per_mole\<rparr> ''dg'' ''pic50'' 300 None
       = Return (Some \<lparr>magnitude = 4184 / (gas_constant * 300) / ln 10 / 1,
                        units = dimensionless\<rparr>)
   \<and> convertError \<lparr>magnitude = 1 / 10, units = kilocalories_per_mole\<rparr>
         \<lparr>magnitude = 1, units = kilocalories_per_mole\<rparr> ''dg'' ''pic50'' 300 None
       = Return (Some \<lparr>magnitude = (1 / 10 * 4184) / (gas_constant * 300 * ln 10) / 1,
                        units = dimensionless\<rparr>)
   \<and> convertValue \<lparr>magnitude = 1, units = nanomolar\<rparr> ''ki'' ''pic50'' 300 None
       = Return (Some \<lparr>magnitude = - ln (1 / 10 ^ 9) / ln 10, units = dimensionless\<rparr>)
   \<and> convertValue \<lparr>magnitude = 9, units = dimensionless\<rparr> ''pic50'' ''ki'' 300 None
       = Return (Some \<lparr>magnitude = 10 powr (- 9) / (1 / 10 ^ 9), units = nanomolar\<rparr>)"
proof -
  have "1 / 10 ^ 9 * 2 \<le> 1 / 10 ^ 9 * ln (10::real)"
    using ln10_lower by (intro mult_left_mono) simp_all
  then have big: "1 / 10 ^ 15 \<le> 1 / 10 ^ 9 * ln (10::real)" by simp
  show ?thesis
    using rounding_pattern
      [where co = "''ki''" and cf = "''ki''"
         and c = "\<lparr>magnitude = 1, units = nanomolar\<rparr>"
         and ec = "\<lparr>magnitude = 1 / 10, units = nanomolar\<rparr>"
         and z = "\<lparr>magnitude = 1 / 10 ^ 16, units = molar\<rparr>"
         and ez = "\<lparr>magnitude = 1, units = molar\<rparr>"
         and p = "\<lparr>magnitude = 9, units = dimensionless\<rparr>"
         and ep = "\<lparr>magnitude = 1234 / 1000, units = dimensionless\<rparr>"
         and q = "\<lparr>magnitude = 1234 / 1000, units = dimensionless\<rparr>"
         and g = "\<lparr>magnitude = 1, units = kilocalories_per_mole\<rparr>"
         and eg = "\<lparr>magnitude = 1 / 10, units = kilocalories_per_mole\<rparr>"
         and T = 300 and oue = None and ue = kilocalories_per_mole
         and ouc = None and uc = nanomolar and our = None and ur = dimensionless
         and ?o3.0 = "''dg''" and ?f3.0 = "''dg''"
         and ?v3.0 = "\<lparr>magnitude = 2, units = kilocalories_per_mole\<rparr>"
         and ?T3.0 = 300 and ?ou3.0 = None
         and ?o4.0 = "''ki''" and ?f4.0 = "''ic50''"
         and ?e4.0 = "\<lparr>magnitude = 3, units = nanomolar\<rparr>"
         and ?v4.0 = "\<lparr>magnitude = 50, units = nanomolar\<rparr>"
         and ?T4.0 = 300 and ?ou4.0 = None]
      big
    by (simp add: dim_defs in_root_def unit_defs)
qed

section \<open>Claims about the identifier lookups\<close>

lemma split_from_words:
  assumes "\<forall>c\<in>set cur. \<not> isspace c" and "w \<in> set (split_from cur s)"
  shows "w \<noteq> [] \<and> (\<forall>c\<in>set w. \<not> isspace c)"
  using assms
proof (induction s arbitrary: cur)
  case Nil
  then show ?case by (auto split: if_splits)
next
  case (Cons c s)
  show ?case
  proof (cases "isspace c")
    case True
    with Cons.prems have "w = cur \<and> cur \<noteq> [] \<or> w \<in> set (split_from [] s)"
      by (auto split: if_splits)
    then show ?thesis
    proof
      assume "w = cur \<and> cur \<noteq> []"
      with Cons.prems(1) show ?thesis by simp
    next
      assume "w \<in> set (split_from [] s)"
      then show ?thesis using Cons.IH [of "[]"] by simp
    qed
  next
    case False
    with Cons.prems have "w \<in> set (split_from (cur @ [c]) s)" by simp
    moreover from False Cons.prems(1) have "\<forall>d\<in>set (cur @ [c]). \<not> isspace d" by simp
    ultimately show ?thesis using Cons.IH [of "cur @ [c]"] by blast
  qed
qed

lemma split_from_word:
  "\<forall>c\<in>set w. \<not> isspace c \<Longrightarrow> split_from cur (w @ s) = split_from (cur @ w) s"
  by (induction w arbitrary: cur) simp_all

lemma isspace_newline: "isspace (CHR 0x0A)"
  unfolding isspace_def by simp

lemma split_join:
  "\<forall>w\<in>set ws. w \<noteq> [] \<and> (\<forall>c\<in>set w. \<not> isspace c) \<Longrightarrow> split (join newline ws) = ws"
proof (induction newline ws rule: join.induct)
  case 1
  then show ?case by (simp add: split_def)
next
  case (2 x)
  then have "split_from [] (x @ []) = split_from ([] @ x) []"
    by (intro split_from_word) simp
  with 2 show ?case by (simp add: split_def)
next
  case (3 x y ys)
  then have w: "x \<noteq> []" "\<forall>c\<in>set x. \<not> isspace c" by simp_all
  have "split_from [] (x @ newline @ join newline (y # ys))
        = split_from ([] @ x) (newline @ join newline (y # ys))"
    using w(2) by (rule split_from_word)
  also have "\<dots> = x # split_from [] (join newline (y # ys))"
    using w(1) isspace_newline by (simp add: newline_def)
  also have "split_from [] (join newline (y # ys)) = y # ys"
    using 3 by (simp add: split_def)
  finally show ?case by (simp add: split_def)
qed

lemma split_join_split: "split (join newline (split s)) = split s"
proof (rule split_join)
  show "\<forall>w\<in>set (split s). w \<noteq> [] \<and> (\<forall>c\<in>set w. \<not> isspace c)"
    unfolding split_def using split_from_words [of "[]" _ s] by simp
qed

lemma concat_split_from:
  "concat (split_from cur s) = cur @ filter (\<lambda>c. \<not> isspace c) s"
  by (induction s arbitrary: cur) simp_all

lemma concat_split: "concat (split s) = filter (\<lambda>c. \<not> isspace c) s"
  unfolding split_def by (simp add: concat_split_from)

lemma split_words:
  "\<forall>w\<in>set (split s). w \<noteq> [] \<and> (\<forall>c\<in>set w. \<not> isspace c)"
  unfolding split_def using split_from_words [of "[]" _ s] by simp

text \<open>
  Claim C9. When the request fails with a \<^verbatim>\<open>URLError\<close>, \<open>findPdbUrl\<close> gives one warning
  and returns the identifiers of its input joined by newlines, without any marker:
  splitting the returned text gives the identifiers back, each identifier is a
  non-empty run without white space, and together they are the characters of the input
  that are not white space. \<open>findDoiUrl\<close> gives one warning and returns the identifier
  it was given. Neither raises.
\<close>

theorem network_failure_fallback:
  "findPdbUrl (Some pdb) (URLError e)
     = ([''Could not find PDB '' @ pdb @ newline @ e], join newline (split pdb))
   \<and> split (snd (findPdbUrl (Some pdb) (URLError e))) = split pdb
   \<and> (\<forall>w\<in>set (split pdb). w \<noteq> [] \<and> (\<forall>c\<in>set w. \<not> isspace c))
   \<and> concat (split pdb) = filter (\<lambda>c. \<not> isspace c) pdb
   \<and> findDoiUrl repr doi (URLError e')
     = ([''Could not find DOI: '' @ doi @ newline @ e'], Return doi)"
  unfolding findPdbUrl_def findDoiUrl_def
  using split_words [of pdb]
  by (simp add: split_join_split concat_split)

theorem network_failure_fallback_witness:
  "findPdbUrl (Some '' 1abc  2xyz 3def'') (URLError ''timed out'')
     = ([''Could not find PDB  1abc  2xyz 3def'' @ [CHR 0x0A] @ ''timed out''],
        ''1abc'' @ [CHR 0x0A] @ ''2xyz'' @ [CHR 0x0A] @ ''3def'')
   \<and> split '' 1abc  2xyz 3def'' = [''1abc'', ''2xyz'', ''3def'']
   \<and> findDoiUrl (\<lambda>x. []) ''10.1021/x'' (URLError ''timed out'')
     = ([''Could not find DOI: 10.1021/x'' @ [CHR 0x0A] @ ''timed out''], Return ''10.1021/x'')"
proof -
  have s: "split '' 1abc  2xyz 3def'' = [''1abc'', ''2xyz'', ''3def'']"
    by (simp add: split_def isspace_def)
  show ?thesis
    using network_failure_fallback
      [where pdb = "'' 1abc  2xyz 3def''" and e = "''timed out''"
         and repr = "\<lambda>x. []" and doi = "''10.1021/x''" and e' = "''timed out''"]
    by (simp add: s newline_def)
qed

text \<open>
  Claim C8, amended. For a response whose author list and short-container-title list
  are present, the label is the family name of the first author, \<open>et al.,\<close>, the first
  short container title and the first number of the first date of \<open>published-print\<close>.
  An empty author list and an empty title list give the empty string; a response
  without \<open>published-print\<close> gives \<open>XXXX\<close> for the year.
\<close>

theorem citation_label:
  assumes "map_of resp ''status'' = Some status"
    and "status = JStr ''ok'' \<and> map_of resp ''message'' = Some (JObj msg)
         \<or> status \<noteq> JStr ''ok'' \<and> msg = resp"
    and "map_of msg ''author'' = Some (JArr authors)"
    and "authors = [] \<and> aut = JStr []
         \<or> (\<exists>first rest. authors = JObj first # rest \<and> map_of first ''family'' = Some aut)"
    and "map_of msg ''short-container-title'' = Some (JArr titles)"
    and "titles = [] \<and> tit = JStr [] \<or> (\<exists>rest. titles = tit # rest)"
    and "map_of msg ''published-print'' = None \<and> dat = JStr ''XXXX''
         \<or> (\<exists>pp ys rest. map_of msg ''published-print'' = Some (JObj pp)
               \<and> map_of pp ''date-parts'' = Some (JArr (JArr (dat # ys) # rest)))"
    and "map_of msg ''URL'' = Some url"
  shows "findDoiUrl repr doi (Response (JObj resp))
         = ([], Return (''REP1'' @ str repr url @ ''REP2''
                          @ (str repr aut @ '' et al., '' @ str repr tit @ '' '' @ str repr dat)
                          @ ''REP3''))"
proof -
  have obj: "bind (getitem (JObj resp) ''status'')
               (\<lambda>status. bind (if status = JStr ''ok'' then getitem (JObj resp) ''message''
                                else Return (JObj resp)) k)
             = k (JObj msg)" for k :: "json \<Rightarrow> string result"
    using assms(1,2) by auto
  have aut: "bind (getitem (JObj msg) ''author'') (\<lambda>aut0. bind (len aut0) (\<lambda>n.
               bind (if 0 < n
                     then bind (getitem (JObj msg) ''author'') (\<lambda>a.
                          bind (getitem0 a) (\<lambda>a0. getitem a0 ''family''))
                     else Return (JStr [])) k))
             = k aut" for k :: "json \<Rightarrow> string result"
    using assms(3,4) by auto
  have tit: "bind (getitem (JObj msg) ''short-container-title'') (\<lambda>tit0. bind (len tit0) (\<lambda>m.
               bind (if 0 < m then getitem0 tit0 else Return (JStr [])) k))
             = k tit" for k :: "json \<Rightarrow> string result"
    using assms(5,6) by auto
  have dat: "bind (has_key (JObj msg) ''published-print'') (\<lambda>printed.
               bind (if printed
                     then bind (getitem (JObj msg) ''published-print'') (\<lambda>p.
                          bind (getitem p ''date-parts'') (\<lambda>d.
                          bind (getitem0 d) (\<lambda>d0. getitem0 d0)))
                     else Return (JStr ''XXXX'')) k)
             = k dat" for k :: "json \<Rightarrow> string result"
    using assms(7) by auto
  have url: "getitem (JObj msg) ''URL'' = Return url"
    using assms(8) by simp
  show ?thesis
    unfolding findDoiUrl_def by (simp only: fetched.case obj aut tit dat url Let_def bind.simps)
qed


theorem citation_label_witness:
  "findDoiUrl (\<lambda>x. []) ''10.1/x''
     (Response (JObj
        [(''status'', JStr ''ok''),
         (''message'', JObj
            [(''author'', JArr [JObj [(''given'', JStr ''Ann''), (''family'', JStr ''Smith'')]]),
             (''short-container-title'', JArr []),
             (''published-print'', JObj [(''date-parts'', JArr [JArr [JInt 2019, JInt 5]])]),
             (''URL'', JStr ''http://dx.doi.org/10.1/x'')])]))
   = ([], Return ''REP1http://dx.doi.org/10.1/xREP2Smith et al.,  2019REP3'')"
  using citation_label
    [where repr = "\<lambda>x. []" and doi = "''10.1/x''"
       and resp = "[(''status'', JStr ''ok''),
         (''message'', JObj
            [(''author'', JArr [JObj [(''given'', JStr ''Ann''), (''family'', JStr ''Smith'')]]),
             (''short-container-title'', JArr []),
             (''published-print'', JObj [(''date-parts'', JArr [JArr [JInt 2019, JInt 5]])]),
             (''URL'', JStr ''http://dx.doi.org/10.1/x'')])]"
       and status = "JStr ''ok''"
       and msg = "[(''author'', JArr [JObj [(''given'', JStr ''Ann''), (''family'', JStr ''Smith'')]]),
             (''short-container-title'', JArr []),
             (''published-print'', JObj [(''date-parts'', JArr [JArr [JInt 2019, JInt 5]])]),
             (''URL'', JStr ''http://dx.doi.org/10.1/x'')]"
       and authors = "[JObj [(''given'', JStr ''Ann''), (''family'', JStr ''Smith'')]]"
       and aut = "JStr ''Smith''" and titles = "[]" and tit = "JStr []"
       and dat = "JInt 2019" and url = "JStr ''http://dx.doi.org/10.1/x''"]
  by (simp add: decimal.simps)

text \<open>
  Claim C8 as stated fails: without \<open>published-print\<close> the year is \<open>XXXX\<close>, not empty,
  and without the key \<open>author\<close> the function raises \<^verbatim>\<open>KeyError\<close> instead of returning
  a label.
\<close>

theorem citation_label_counterexample:
  "findDoiUrl (\<lambda>x. []) ''10.1/x''
     (Response (JObj
        [(''status'', JStr ''ok''),
         (''message'', JObj
            [(''author'', JArr [JObj [(''given'', JStr ''Ann''), (''family'', JStr ''Smith'')]]),
             (''short-container-title'', JArr [JStr ''J. Chem.'']),
             (''URL'', JStr ''http://dx.doi.org/10.1/x'')])]))
   = ([], Return ''REP1http://dx.doi.org/10.1/xREP2Smith et al., J. Chem. XXXXREP3'')
   \<and> findDoiUrl (\<lambda>x. []) ''10.1/x''
     (Response (JObj
        [(''status'', JStr ''ok''),
         (''message'', JObj
            [(''short-container-title'', JArr [JStr ''J. Chem.'']),
             (''published-print'', JObj [(''date-parts'', JArr [JArr [JInt 2019, JInt 5]])]),
             (''URL'', JStr ''http://dx.doi.org/10.1/x'')])]))
   = ([], Raise KeyError)"
  unfolding findDoiUrl_def by simp

end
